theory Spec2Isabelle
  imports Complex_Main
begin

section \<open>Tensor entries\<close>

text \<open>
  The entries of the tensors and arrays of \<^verbatim>\<open>icenet/deep/dbnf.py\<close> are floating-point
  numbers. \<^verbatim>\<open>predict\<close> tests them with \<^verbatim>\<open>np.isfinite\<close>, so the model keeps the three
  special values of IEEE 754 next to the finite ones. Finite values are real numbers:
  rounding, overflow of a finite result and the sign of zero are not modelled (a zero
  divisor counts as \<open>+0\<close>). The code computes in single precision, where a finite result
  above \<open>float32_max\<close> becomes \<open>inf\<close>; a statement that would fail there carries the bound as
  a hypothesis.
\<close>

datatype fl = Fin real | PInf | NInf | NaN

fun isfinite :: "fl \<Rightarrow> bool" where
  "isfinite (Fin r) = True"
| "isfinite PInf = False"
| "isfinite NInf = False"
| "isfinite NaN = False"

fun fl_neg :: "fl \<Rightarrow> fl" where
  "fl_neg (Fin r) = Fin (- r)"
| "fl_neg PInf = NInf"
| "fl_neg NInf = PInf"
| "fl_neg NaN = NaN"

fun fl_add :: "fl \<Rightarrow> fl \<Rightarrow> fl" where
  "fl_add NaN b = NaN"
| "fl_add a NaN = NaN"
| "fl_add (Fin a) (Fin b) = Fin (a + b)"
| "fl_add (Fin a) PInf = PInf"
| "fl_add (Fin a) NInf = NInf"
| "fl_add PInf (Fin b) = PInf"
| "fl_add NInf (Fin b) = NInf"
| "fl_add PInf PInf = PInf"
| "fl_add NInf NInf = NInf"
| "fl_add PInf NInf = NaN"
| "fl_add NInf PInf = NaN"

definition fl_sub :: "fl \<Rightarrow> fl \<Rightarrow> fl" where
  "fl_sub a b = fl_add a (fl_neg b)"

text \<open>The sign of a product or quotient with an infinite operand.\<close>

definition signed_inf :: "bool \<Rightarrow> fl" where
  "signed_inf positive = (if positive then PInf else NInf)"

fun fl_mul :: "fl \<Rightarrow> fl \<Rightarrow> fl" where
  "fl_mul NaN b = NaN"
| "fl_mul a NaN = NaN"
| "fl_mul (Fin a) (Fin b) = Fin (a * b)"
| "fl_mul (Fin a) PInf = (if a = 0 then NaN else signed_inf (0 < a))"
| "fl_mul (Fin a) NInf = (if a = 0 then NaN else signed_inf (a < 0))"
| "fl_mul PInf (Fin b) = (if b = 0 then NaN else signed_inf (0 < b))"
| "fl_mul NInf (Fin b) = (if b = 0 then NaN else signed_inf (b < 0))"
| "fl_mul PInf PInf = PInf"
| "fl_mul NInf NInf = PInf"
| "fl_mul PInf NInf = NInf"
| "fl_mul NInf PInf = NInf"

fun fl_div :: "fl \<Rightarrow> fl \<Rightarrow> fl" where
  "fl_div NaN b = NaN"
| "fl_div a NaN = NaN"
| "fl_div (Fin a) (Fin b) =
     (if b \<noteq> 0 then Fin (a / b) else if a = 0 then NaN else signed_inf (0 < a))"
| "fl_div (Fin a) PInf = Fin 0"
| "fl_div (Fin a) NInf = Fin 0"
| "fl_div PInf (Fin b) = signed_inf (0 \<le> b)"
| "fl_div NInf (Fin b) = signed_inf (b < 0)"
| "fl_div PInf PInf = NaN"
| "fl_div PInf NInf = NaN"
| "fl_div NInf PInf = NaN"
| "fl_div NInf NInf = NaN"

fun fl_exp :: "fl \<Rightarrow> fl" where
  "fl_exp (Fin r) = Fin (exp r)"
| "fl_exp PInf = PInf"
| "fl_exp NInf = Fin 0"
| "fl_exp NaN = NaN"

fun fl_log :: "fl \<Rightarrow> fl" where
  "fl_log (Fin r) = (if 0 < r then Fin (ln r) else if r = 0 then NInf else NaN)"
| "fl_log PInf = PInf"
| "fl_log NInf = NaN"
| "fl_log NaN = NaN"

text \<open>\<^verbatim>\<open>np.maximum\<close>: the larger operand, a NaN operand wins.\<close>

fun fl_maximum :: "fl \<Rightarrow> fl \<Rightarrow> fl" where
  "fl_maximum NaN b = NaN"
| "fl_maximum a NaN = NaN"
| "fl_maximum PInf b = PInf"
| "fl_maximum a PInf = PInf"
| "fl_maximum NInf b = b"
| "fl_maximum a NInf = a"
| "fl_maximum (Fin a) (Fin b) = Fin (max a b)"

text \<open>\<^verbatim>\<open>tensor.sum(dim)\<close> over one axis; the empty sum is 0.\<close>

definition fl_sum :: "fl list \<Rightarrow> fl" where
  "fl_sum xs = foldr fl_add xs (Fin 0)"

text \<open>\<^verbatim>\<open>value != value\<close>, which holds of NaN only.\<close>

fun isnan :: "fl \<Rightarrow> bool" where
  "isnan NaN = True"
| "isnan (Fin r) = False"
| "isnan PInf = False"
| "isnan NInf = False"

text \<open>The largest finite single-precision number, \<^verbatim>\<open>(2 - 2**-23) * 2**127\<close>.\<close>

definition float32_max :: real where
  "float32_max = (2 - 1 / 2 ^ 23) * 2 ^ 127"

section \<open>Errors\<close>

text \<open>The exceptions the functions of the module can raise.\<close>

datatype error =
    IndexError
  | RuntimeError
  | ZeroDivisionError
  | UnboundLocalError
  | ValueError

section \<open>Density of a flow model\<close>

text \<open>
  The flow classes (\<^verbatim>\<open>from . bnaf import *\<close>) are not among the sources. A model is what
  \<^verbatim>\<open>model(x)\<close> computes: for each row of the batch the transformed point \<open>y\<close> and the
  accumulated log-determinant \<open>log_diag\<close> of that sample.
\<close>

type_synonym 'x model = "'x \<Rightarrow> fl list \<times> fl"

text \<open>
  \<^verbatim>\<open>torch.distributions.Normal(loc, scale).log_prob(value)\<close>, as the torch library computes it:
  \<^verbatim>\<open>-((value - loc) ** 2) / (2 * var) - log_scale - math.log(math.sqrt(2 * math.pi))\<close>
  with \<^verbatim>\<open>var = scale ** 2\<close> and \<^verbatim>\<open>log_scale = scale.log()\<close>.
\<close>

definition normal_log_prob :: "fl \<Rightarrow> fl \<Rightarrow> fl \<Rightarrow> fl" where
  "normal_log_prob loc scale v =
     (let var = fl_mul scale scale;
          log_scale = fl_log scale;
          d = fl_sub v loc
      in fl_sub (fl_sub (fl_div (fl_neg (fl_mul d d)) (fl_mul (Fin 2) var)) log_scale)
                (Fin (ln (sqrt (2 * pi)))))"

text \<open>
  The distribution is built with the default \<^verbatim>\<open>validate_args\<close>, so \<^verbatim>\<open>log_prob(value)\<close> first
  checks its argument against the support of the distribution, the real line
  (\<^verbatim>\<open>value == value\<close> at every entry, which infinite entries pass), and raises \<^verbatim>\<open>ValueError\<close>
  for the whole tensor when an entry is NaN. The location 0 and the scale 1 pass the check
  of the constructor.
\<close>

definition log_prob :: "fl \<Rightarrow> fl \<Rightarrow> fl list list \<Rightarrow> error + fl list list" where
  "log_prob loc scale y =
     (if list_ex (list_ex isnan) y then Inl ValueError
      else Inr (map (map (normal_log_prob loc scale)) y))"

text \<open>
  \<^verbatim>\<open>compute_log_p_x(model, x)\<close>: \<^verbatim>\<open>zeros_like(y)\<close> and \<^verbatim>\<open>ones_like(y)\<close> give location 0 and
  scale 1 at every entry, \<^verbatim>\<open>.sum(dim=-1)\<close> sums each row.
\<close>

definition compute_log_p_x :: "'x model \<Rightarrow> 'x list \<Rightarrow> error + fl list" where
  "compute_log_p_x model x =
     (let out = map model x;
          y = map fst out;
          log_diag = map snd out
      in case log_prob (Fin 0) (Fin 1) y of
           Inl e \<Rightarrow> Inl e
         | Inr lp \<Rightarrow>
             (let log_p_y = map fl_sum lp
              in Inr (map2 fl_add log_p_y log_diag)))"

text \<open>\<^verbatim>\<open>get_pdf(model, x)\<close>; detaching and the move to a numpy array change no value.\<close>

definition get_pdf :: "'x model \<Rightarrow> 'x list \<Rightarrow> error + fl list" where
  "get_pdf model x =
     (case compute_log_p_x model x of
        Inl e \<Rightarrow> Inl e
      | Inr log_p \<Rightarrow> Inr (map fl_exp log_p))"

text \<open>
  The standard Gaussian density and its logarithm, as the specification words the base
  distribution: \<open>N(y; 0, 1) = exp (- y\<^sup>2 / 2) / sqrt (2 \<pi>)\<close>, which tends to 0 at both infinities.
\<close>

fun std_gauss_density :: "fl \<Rightarrow> fl" where
  "std_gauss_density (Fin r) = Fin (exp (- (r * r) / 2) / sqrt (2 * pi))"
| "std_gauss_density PInf = Fin 0"
| "std_gauss_density NInf = Fin 0"
| "std_gauss_density NaN = NaN"

definition std_gauss_log_density :: "fl \<Rightarrow> fl" where
  "std_gauss_log_density v = fl_log (std_gauss_density v)"

section \<open>Likelihood ratio of two models\<close>

text \<open>A keyword argument with a default value: \<open>None\<close> when the caller leaves it out.\<close>

definition default_arg :: "'a \<Rightarrow> 'a option \<Rightarrow> 'a" where
  "default_arg d a = (case a of None \<Rightarrow> d | Some v \<Rightarrow> v)"

text \<open>
  \<^verbatim>\<open>np.clip(a, a_min, None)\<close> is \<^verbatim>\<open>np.maximum(a, a_min)\<close>; sums and quotients of arrays of
  equal length are taken entry by entry.
\<close>

definition np_clip_min :: "fl list \<Rightarrow> fl \<Rightarrow> fl list" where
  "np_clip_min a a_min = map (\<lambda>v. fl_maximum v a_min) a"

definition np_add :: "fl list \<Rightarrow> fl list \<Rightarrow> fl list" where
  "np_add a b = map2 fl_add a b"

definition np_divide :: "fl list \<Rightarrow> fl list \<Rightarrow> fl list" where
  "np_divide a b = map2 fl_div a b"

text \<open>\<^verbatim>\<open>out[~np.isfinite(out)] = 0\<close>\<close>

definition zero_nonfinite :: "fl list \<Rightarrow> fl list" where
  "zero_nonfinite out = map (\<lambda>v. if isfinite v then v else Fin 0) out"

text \<open>\<^verbatim>\<open>models[k]\<close>, which raises \<^verbatim>\<open>IndexError\<close> on a list that is too short.\<close>

definition list_item :: "'a list \<Rightarrow> nat \<Rightarrow> error + 'a" where
  "list_item xs k = (if k < length xs then Inr (xs ! k) else Inl IndexError)"

text \<open>
  \<^verbatim>\<open>predict(X, models, return_prob=True, EPS=1E-9)\<close>, statement by statement: the density of
  \<^verbatim>\<open>models[0]\<close>, then the density of \<^verbatim>\<open>models[1]\<close>, the quotient and the replacement of its
  non-finite entries. The printed message is left out.
\<close>

definition predict :: "'x list \<Rightarrow> 'x model list \<Rightarrow> bool option \<Rightarrow> fl option \<Rightarrow> error + fl list" where
  "predict X models return_prob_arg EPS_arg =
     (let return_prob = default_arg True return_prob_arg;
          EPS = default_arg (Fin (1 / 10 ^ 9)) EPS_arg
      in case list_item models 0 of
           Inl e \<Rightarrow> Inl e
         | Inr m0 \<Rightarrow>
             (case get_pdf m0 X of
                Inl e \<Rightarrow> Inl e
              | Inr bgk_pdf \<Rightarrow>
                  (case list_item models 1 of
                     Inl e \<Rightarrow> Inl e
                   | Inr m1 \<Rightarrow>
                       (case get_pdf m1 X of
                          Inl e \<Rightarrow> Inl e
                        | Inr sgn_pdf \<Rightarrow>
                            (let out = (if return_prob
                                        then np_divide sgn_pdf (np_clip_min (np_add sgn_pdf bgk_pdf) EPS)
                                        else np_divide sgn_pdf (np_clip_min bgk_pdf EPS))
                             in Inr (zero_nonfinite out))))))"

text \<open>
  The output of one row as the specification states it, before non-finite values are
  replaced: \<open>pdf_S / clip (pdf_S + pdf_B, EPS, inf)\<close> with \<open>return_prob\<close>, \<open>pdf_S / clip (pdf_B, EPS, inf)\<close>
  without.
\<close>

definition ratio_spec :: "bool \<Rightarrow> fl \<Rightarrow> fl \<Rightarrow> fl \<Rightarrow> fl" where
  "ratio_spec return_prob EPS pdf_S pdf_B =
     (if return_prob then fl_div pdf_S (fl_maximum (fl_add pdf_S pdf_B) EPS)
      else fl_div pdf_S (fl_maximum pdf_B EPS))"

text \<open>
  A model to evaluate the functions on: the identity flow \<open>y = x\<close>, whose log-determinant is 0
  and whose density is the standard Gaussian density.
\<close>

definition identity_flow :: "fl list model" where
  "identity_flow x = (x, Fin 0)"

text \<open>
  A flow that has diverged: it leaves the point where it is and reports an accumulated
  log-determinant of \<open>+inf\<close>, so that its density is \<open>+inf\<close> at every point.
\<close>

definition diverged_flow :: "fl list model" where
  "diverged_flow x = (x, PInf)"

text \<open>
  No entry of the transformed batch is NaN: the batches on which the argument check of
  \<^verbatim>\<open>log_prob\<close> passes.
\<close>

definition nan_free :: "'x model \<Rightarrow> 'x list \<Rightarrow> bool" where
  "nan_free model x = (\<forall>xi\<in>set x. \<forall>v\<in>set (fst (model xi)). \<not> isnan v)"

section \<open>Construction of the model\<close>

text \<open>
  The layer and container classes come from the flow module, which is not among the sources;
  the model records which constructor \<open>create_model\<close> calls with which arguments.
  \<open>MaskedWeight in out dim\<close>, \<open>BNAF layers res\<close>, \<open>Permutation in p\<close> and \<open>Sequential flows\<close>.
\<close>

datatype layer = MaskedWeight int int int | Tanh

datatype ('r, 'p) flow = BNAF "layer list" "'r option" | Permutation int 'p

datatype ('r, 'p) sequential = Sequential "('r, 'p) flow list"

text \<open>The dictionary \<^verbatim>\<open>param\<close> of \<open>create_model\<close>, with the keys it reads.\<close>

record ('r, 'p) model_param =
  n_dims :: int
  hidden_dim :: int
  layers :: int
  flows :: int
  residual :: "'r option"
  perm :: 'p

text \<open>\<^verbatim>\<open>range(n)\<close>: empty when \<open>n\<close> is not positive.\<close>

definition py_range :: "int \<Rightarrow> int list" where
  "py_range n = map int [0..<nat n]"

text \<open>
  The layers handed to one \<^verbatim>\<open>BNAF\<close>: the input layer, the list the inner loop appends to
  (\<^verbatim>\<open>param['layers']\<close> times a masked weight and a \<^verbatim>\<open>Tanh\<close>) and the output layer.
\<close>

definition block_layers :: "('r, 'p) model_param \<Rightarrow> layer list" where
  "block_layers param =
     [MaskedWeight (n_dims param) (n_dims param * hidden_dim param) (n_dims param), Tanh] @
     concat (map (\<lambda>_. [MaskedWeight (n_dims param * hidden_dim param)
                                        (n_dims param * hidden_dim param) (n_dims param), Tanh])
                 (py_range (layers param))) @
     [MaskedWeight (n_dims param * hidden_dim param) (n_dims param) (n_dims param)]"

text \<open>
  \<open>create_model\<close>: the outer loop appends, for \<open>f\<close> in \<^verbatim>\<open>range(param['flows'])\<close>, a flow block and,
  when \<open>f < flows - 1\<close>, a permutation. Seeding the random generator, counting the
  parameters and printing are left out.
\<close>

definition create_model :: "('r, 'p) model_param \<Rightarrow> ('r, 'p) sequential" where
  "create_model param =
     Sequential (concat (map (\<lambda>f.
        BNAF (block_layers param) (if f < flows param - 1 then residual param else None) #
        (if f < flows param - 1 then [Permutation (n_dims param) (perm param)] else []))
        (py_range (flows param))))"

text \<open>The modules a \<^verbatim>\<open>Sequential\<close> holds, and which of them are flow blocks.\<close>

fun modules :: "('r, 'p) sequential \<Rightarrow> ('r, 'p) flow list" where
  "modules (Sequential fs) = fs"

fun is_BNAF :: "('r, 'p) flow \<Rightarrow> bool" where
  "is_BNAF (BNAF ls res) = True"
| "is_BNAF (Permutation n p) = False"

text \<open>The architecture of the end-to-end scenario of the specification, with a gated residual.\<close>

definition demo_param :: "(string, nat list) model_param" where
  "demo_param = \<lparr>n_dims = 2, hidden_dim = 4, layers = 1, flows = 2,
                  residual = Some ''gated'', perm = [1, 0]\<rparr>"

section \<open>Training\<close>

text \<open>
  The product of two one-dimensional tensors: entry by entry when the lengths agree, a tensor
  of length 1 is broadcast, any other pair of shapes raises \<^verbatim>\<open>RuntimeError\<close>.
\<close>

definition torch_mul :: "fl list \<Rightarrow> fl list \<Rightarrow> error + fl list" where
  "torch_mul a b =
     (if length a = length b then Inr (map2 fl_mul a b)
      else if length a = 1 then Inr (map (fl_mul (hd a)) b)
      else if length b = 1 then Inr (map (\<lambda>v. fl_mul v (hd b)) a)
      else Inl RuntimeError)"

text \<open>
  \<open>lossfunc\<close>, the function \<open>train\<close> defines for a batch \<open>x\<close> with its weights:
  \<^verbatim>\<open>w = weights / torch.sum(weights, dim=0)\<close>, \<^verbatim>\<open>lossvec = compute_log_p_x(model, x)\<close>,
  \<^verbatim>\<open>return -(lossvec * w).sum(dim=0)\<close>.
\<close>

definition lossfunc :: "'x model \<Rightarrow> 'x list \<Rightarrow> fl list \<Rightarrow> error + fl" where
  "lossfunc model x weights =
     (let w = map (\<lambda>wi. fl_div wi (fl_sum weights)) weights
      in case compute_log_p_x model x of
           Inl e \<Rightarrow> Inl e
         | Inr lossvec \<Rightarrow>
             (case torch_mul lossvec w of
                Inl e \<Rightarrow> Inl e
              | Inr weighted \<Rightarrow> Inr (fl_neg (fl_sum weighted))))"

text \<open>
  The class \<open>Dataset\<close>: \<open>__len__\<close> is the number of rows of \<open>X\<close>; \<open>__getitem__\<close> is called by the
  loader with the list of indices of one batch and returns \<^verbatim>\<open>X[index, ...]\<close> and \<^verbatim>\<open>W[index]\<close>,
  which raise \<^verbatim>\<open>IndexError\<close> on an index out of range.
\<close>

record 'x dataset =
  dataset_X :: "'x list"
  dataset_W :: "fl list"

definition dataset_len :: "'x dataset \<Rightarrow> nat" where
  "dataset_len ds = length (dataset_X ds)"

definition getitem :: "'x dataset \<Rightarrow> nat list \<Rightarrow> error + ('x list \<times> fl list)" where
  "getitem ds index =
     (if list_all (\<lambda>i. i < length (dataset_X ds)) index \<and> list_all (\<lambda>i. i < length (dataset_W ds)) index
      then Inr (map (\<lambda>i. dataset_X ds ! i) index, map (\<lambda>i. dataset_W ds ! i) index)
      else Inl IndexError)"

text \<open>The keys of \<^verbatim>\<open>param\<close> and \<^verbatim>\<open>param['opt_param']\<close> that the training loop reads.\<close>

record train_param =
  batch_size :: nat
  start_epoch :: int
  epochs :: int
  clip_norm :: fl
  eval_batch_size :: nat
  evalmode :: int

datatype view = RAW | AVERAGED

datatype phase = TRAIN | VALIDATE

text \<open>
  What \<open>train\<close> is given and does not define. \<open>forward\<close> is the forward pass of the model
  with its current mode flag and parameters; \<open>opt_step\<close> stands for
  \<^verbatim>\<open>zero_grad(); loss.backward(); clip_grad_norm_(..., max_norm=clip_norm); optimizer.step()\<close> on
  one batch; \<open>opt_swap\<close> for the exchange of parameters \<^verbatim>\<open>optimizer.swap()\<close> makes;
  \<open>sched_step\<close> for \<^verbatim>\<open>scheduler.step(validation_loss)\<close>, which returns the stop flag;
  \<open>sampler\<close> for the batches of indices the random batch sampler of a loader draws when the
  loader is iterated in an epoch, given the length of the dataset and the batch size.
\<close>

record ('x, 'm, 'o, 's) collab =
  forward :: "bool \<Rightarrow> 'm \<Rightarrow> 'x model"
  opt_step :: "fl \<Rightarrow> 'm \<Rightarrow> 'o \<Rightarrow> 'x list \<Rightarrow> fl list \<Rightarrow> 'm \<times> 'o"
  opt_swap :: "'m \<Rightarrow> 'o \<Rightarrow> 'm \<times> 'o"
  sched_step :: "'s \<Rightarrow> fl \<Rightarrow> bool \<times> 's"
  sampler :: "phase \<Rightarrow> int \<Rightarrow> nat \<Rightarrow> nat \<Rightarrow> nat list list"

text \<open>What \<^verbatim>\<open>aux_torch.save_torch_model\<close> is called with.\<close>

record ('m, 'o) checkpoint =
  ck_filename :: string
  ck_model :: 'm
  ck_optimizer :: 'o
  ck_epoch :: int
  ck_trn_losses :: "fl list"
  ck_val_losses :: "fl list"

text \<open>
  The objects \<open>train\<close> mutates and its local variables that live across epochs.
  \<open>validation_loss\<close> is \<open>None\<close> as long as the local variable is unbound. \<open>view\<close> and
  \<open>swap_calls\<close> record which parameter snapshot is live and how often \<open>swap\<close> was called.
\<close>

record ('m, 'o, 's) train_state =
  params :: 'm
  training :: bool
  optimizer :: 'o
  view :: view
  swap_calls :: nat
  scheduler :: 's
  trn_losses :: "fl list"
  val_losses :: "fl list"
  validation_loss :: "fl option"
  saved :: "('m, 'o) checkpoint list"

fun toggle :: "view \<Rightarrow> view" where
  "toggle RAW = AVERAGED"
| "toggle AVERAGED = RAW"

text \<open>
  Modelled from the spec: the optimizer class is not among the sources. \<^verbatim>\<open>optimizer.swap()\<close>
  toggles which of the two parameter snapshots, raw or averaged, is the live one.
\<close>

definition swap :: "('x, 'm, 'o, 's) collab \<Rightarrow> ('m, 'o, 's) train_state \<Rightarrow> ('m, 'o, 's) train_state" where
  "swap c s =
     (case opt_swap c (params s) (optimizer s) of
        (m, opt) \<Rightarrow> s\<lparr>params := m, optimizer := opt, view := toggle (view s),
                       swap_calls := Suc (swap_calls s)\<rparr>)"

text \<open>\<^verbatim>\<open>torch.stack(losses).mean()\<close>; stacking an empty list raises \<^verbatim>\<open>RuntimeError\<close>.\<close>

definition stack_mean :: "fl list \<Rightarrow> error + fl" where
  "stack_mean losses =
     (if losses = [] then Inl RuntimeError
      else Inr (fl_div (fl_sum losses) (Fin (real (length losses)))))"

text \<open>The loop over the training loader: loss of the batch, one optimizer step, append.\<close>

fun train_batches ::
  "('x, 'm, 'o, 's) collab \<Rightarrow> train_param \<Rightarrow> 'x dataset \<Rightarrow> nat list list \<Rightarrow>
   ('m, 'o, 's) train_state \<Rightarrow> fl list \<Rightarrow> error + (fl list \<times> ('m, 'o, 's) train_state)" where
  "train_batches c p ds [] s train_loss = Inr (train_loss, s)"
| "train_batches c p ds (index # rest) s train_loss =
     (case getitem ds index of
        Inl e \<Rightarrow> Inl e
      | Inr (batch_x, batch_weights) \<Rightarrow>
          (case lossfunc (forward c (training s) (params s)) batch_x batch_weights of
             Inl e \<Rightarrow> Inl e
           | Inr loss \<Rightarrow>
               (case opt_step c (clip_norm p) (params s) (optimizer s) batch_x batch_weights of
                  (m, opt) \<Rightarrow>
                    train_batches c p ds rest (s\<lparr>params := m, optimizer := opt\<rparr>)
                      (train_loss @ [loss]))))"

text \<open>The loop over the validation loader, under \<^verbatim>\<open>torch.no_grad()\<close>: losses only.\<close>

fun validation_batches ::
  "('x, 'm, 'o, 's) collab \<Rightarrow> 'x dataset \<Rightarrow> nat list list \<Rightarrow>
   ('m, 'o, 's) train_state \<Rightarrow> fl list \<Rightarrow> error + fl list" where
  "validation_batches c ds [] s losses = Inr losses"
| "validation_batches c ds (index # rest) s losses =
     (case getitem ds index of
        Inl e \<Rightarrow> Inl e
      | Inr (batch_x, batch_weights) \<Rightarrow>
          (case lossfunc (forward c (training s) (params s)) batch_x batch_weights of
             Inl e \<Rightarrow> Inl e
           | Inr loss \<Rightarrow> validation_batches c ds rest s (losses @ [loss])))"

text \<open>
  First part of the loop body: \<^verbatim>\<open>model.train()\<close>, the training batches, their mean loss,
  \<^verbatim>\<open>optimizer.swap()\<close>.
\<close>

definition train_phase ::
  "('x, 'm, 'o, 's) collab \<Rightarrow> train_param \<Rightarrow> 'x dataset \<Rightarrow> int \<Rightarrow>
   ('m, 'o, 's) train_state \<Rightarrow> error + (fl \<times> ('m, 'o, 's) train_state)" where
  "train_phase c p training_set epoch s =
     (case train_batches c p training_set
             (sampler c TRAIN epoch (dataset_len training_set) (batch_size p))
             (s\<lparr>training := True\<rparr>) [] of
        Inl e \<Rightarrow> Inl e
      | Inr (losses, s1) \<Rightarrow>
          (case stack_mean losses of
             Inl e \<Rightarrow> Inl e
           | Inr train_loss \<Rightarrow> Inr (train_loss, swap c s1)))"

text \<open>
  The test \<^verbatim>\<open>epoch == 0 or (epoch % param['evalmode']) == 0\<close>: the remainder is only taken
  when \<open>epoch\<close> is not 0 and raises \<^verbatim>\<open>ZeroDivisionError\<close> when \<open>evalmode\<close> is 0.
\<close>

definition validation_due :: "int \<Rightarrow> int \<Rightarrow> error + bool" where
  "validation_due epoch evalmode_p =
     (if epoch = 0 then Inr True
      else if evalmode_p = 0 then Inl ZeroDivisionError
      else Inr (epoch mod evalmode_p = 0))"

text \<open>
  Second part: when the test holds, \<^verbatim>\<open>model.eval()\<close>, the validation batches, their mean
  loss bound to \<open>validation_loss\<close>, \<^verbatim>\<open>optimizer.swap()\<close>; nothing otherwise.
\<close>

definition validate_phase ::
  "('x, 'm, 'o, 's) collab \<Rightarrow> train_param \<Rightarrow> 'x dataset \<Rightarrow> int \<Rightarrow>
   ('m, 'o, 's) train_state \<Rightarrow> error + ('m, 'o, 's) train_state" where
  "validate_phase c p validation_set epoch s =
     (case validation_due epoch (evalmode p) of
        Inl e \<Rightarrow> Inl e
      | Inr False \<Rightarrow> Inr s
      | Inr True \<Rightarrow>
          (case validation_batches c validation_set
                  (sampler c VALIDATE epoch (dataset_len validation_set) (eval_batch_size p))
                  (s\<lparr>training := False\<rparr>) [] of
             Inl e \<Rightarrow> Inl e
           | Inr losses \<Rightarrow>
               (case stack_mean losses of
                  Inl e \<Rightarrow> Inl e
                | Inr v \<Rightarrow> Inr (swap c (s\<lparr>training := False, validation_loss := Some v\<rparr>)))))"

text \<open>\<^verbatim>\<open>str\<close> of an integer, as the f-string of the file name formats \<open>epoch\<close>.\<close>

definition digit_char :: "nat \<Rightarrow> char" where
  "digit_char d = ''0123456789'' ! d"

function str_nat :: "nat \<Rightarrow> string" where
  "str_nat n = (if n < 10 then [digit_char n] else str_nat (n div 10) @ [digit_char (n mod 10)])"
  by pat_completeness auto

termination
  by (relation "measure id") auto

declare str_nat.simps [simp del]

definition str_int :: "int \<Rightarrow> string" where
  "str_int i = (if i < 0 then CHR ''-'' # str_nat (nat (- i)) else str_nat (nat i))"

definition checkpoint_name :: "string \<Rightarrow> string \<Rightarrow> int \<Rightarrow> string" where
  "checkpoint_name modeldir save_name epoch =
     modeldir @ ''/'' @ save_name @ ''_'' @ str_int epoch @ ''.pth''"

text \<open>
  Modelled from the spec: \<^verbatim>\<open>aux_torch.save_torch_model\<close> is not among the sources. It
  persists a snapshot of the model parameters, the optimizer parameters, the epoch index and
  the loss histories under the given file name.
\<close>

definition save_torch_model ::
  "'m \<Rightarrow> 'o \<Rightarrow> int \<Rightarrow> fl list \<Rightarrow> fl list \<Rightarrow> string \<Rightarrow>
   ('m, 'o) checkpoint list \<Rightarrow> ('m, 'o) checkpoint list" where
  "save_torch_model model_p optimizer_p epoch trn val filename files =
     files @ [\<lparr>ck_filename = filename, ck_model = model_p, ck_optimizer = optimizer_p,
               ck_epoch = epoch, ck_trn_losses = trn, ck_val_losses = val\<rparr>]"

text \<open>
  Last part of the loop body: the two histories are extended (reading \<open>validation_loss\<close>
  raises \<^verbatim>\<open>UnboundLocalError\<close> while it is unbound), the scheduler steps, the checkpoint is
  written. Printing and the optional tensorboard writer are left out. The result carries
  the stop flag.
\<close>

definition finish_epoch ::
  "('x, 'm, 'o, 's) collab \<Rightarrow> string \<Rightarrow> string \<Rightarrow> int \<Rightarrow> fl \<Rightarrow>
   ('m, 'o, 's) train_state \<Rightarrow> error + (bool \<times> ('m, 'o, 's) train_state)" where
  "finish_epoch c modeldir save_name epoch train_loss s =
     (let s1 = s\<lparr>trn_losses := trn_losses s @ [train_loss]\<rparr>
      in case validation_loss s1 of
           None \<Rightarrow> Inl UnboundLocalError
         | Some v \<Rightarrow>
             (let s2 = s1\<lparr>val_losses := val_losses s1 @ [v]\<rparr>
              in case sched_step c (scheduler s2) v of
                   (stop, sch) \<Rightarrow>
                     Inr (stop,
                          s2\<lparr>scheduler := sch,
                             saved := save_torch_model (params s2) (optimizer s2) epoch
                                        (trn_losses s2) (val_losses s2)
                                        (checkpoint_name modeldir save_name epoch) (saved s2)\<rparr>)))"

definition train_epoch ::
  "('x, 'm, 'o, 's) collab \<Rightarrow> train_param \<Rightarrow> string \<Rightarrow> string \<Rightarrow> 'x dataset \<Rightarrow> 'x dataset \<Rightarrow>
   int \<Rightarrow> ('m, 'o, 's) train_state \<Rightarrow> error + (bool \<times> ('m, 'o, 's) train_state)" where
  "train_epoch c p modeldir save_name training_set validation_set epoch s =
     (case train_phase c p training_set epoch s of
        Inl e \<Rightarrow> Inl e
      | Inr (train_loss, s1) \<Rightarrow>
          (case validate_phase c p validation_set epoch s1 of
             Inl e \<Rightarrow> Inl e
           | Inr s2 \<Rightarrow> finish_epoch c modeldir save_name epoch train_loss s2))"

text \<open>The \<^verbatim>\<open>for\<close> loop over the epochs, left by \<^verbatim>\<open>break\<close> when the scheduler says stop.\<close>

fun train_loop ::
  "('x, 'm, 'o, 's) collab \<Rightarrow> train_param \<Rightarrow> string \<Rightarrow> string \<Rightarrow> 'x dataset \<Rightarrow> 'x dataset \<Rightarrow>
   int list \<Rightarrow> ('m, 'o, 's) train_state \<Rightarrow> error + ('m, 'o, 's) train_state" where
  "train_loop c p modeldir save_name training_set validation_set [] s = Inr s"
| "train_loop c p modeldir save_name training_set validation_set (epoch # rest) s =
     (case train_epoch c p modeldir save_name training_set validation_set epoch s of
        Inl e \<Rightarrow> Inl e
      | Inr (stop, s1) \<Rightarrow>
          if stop then Inr s1
          else train_loop c p modeldir save_name training_set validation_set rest s1)"

text \<open>\<^verbatim>\<open>range(start_epoch, start_epoch + epochs)\<close>\<close>

definition epoch_range :: "train_param \<Rightarrow> int list" where
  "epoch_range p = map (\<lambda>k. start_epoch p + k) (py_range (epochs p))"

text \<open>\<^verbatim>\<open>torch.ones(x.shape[0])\<close> when the weights are \<open>None\<close>.\<close>

definition weights_or_ones :: "'x list \<Rightarrow> fl list option \<Rightarrow> fl list" where
  "weights_or_ones x weights =
     (case weights of None \<Rightarrow> replicate (length x) (Fin 1) | Some w \<Rightarrow> w)"

text \<open>
  The state before the first epoch: the raw parameters are live, no \<open>swap\<close> was called, the
  histories are empty and \<open>validation_loss\<close> is unbound. (A module starts in training mode;
  the loop sets the flag before it reads it.)
\<close>

definition init_state :: "'m \<Rightarrow> 'o \<Rightarrow> 's \<Rightarrow> ('m, 'o, 's) train_state" where
  "init_state model_p optimizer_p scheduler_p =
     \<lparr>params = model_p, training = True, optimizer = optimizer_p, view = RAW, swap_calls = 0,
      scheduler = scheduler_p, trn_losses = [], val_losses = [], validation_loss = None,
      saved = []\<rparr>"

text \<open>
  The sampler of a loader, \<^verbatim>\<open>BatchSampler(RandomSampler(dataset), batch_size, drop_last=False)\<close>:
  the torch library raises \<^verbatim>\<open>ValueError\<close> in \<^verbatim>\<open>RandomSampler\<close> for a dataset without rows and in
  \<^verbatim>\<open>BatchSampler\<close> for a batch size that is not positive.
\<close>

definition batch_sampler :: "'x dataset \<Rightarrow> nat \<Rightarrow> error + unit" where
  "batch_sampler ds bs =
     (if dataset_len ds = 0 then Inl ValueError
      else if bs = 0 then Inl ValueError
      else Inr ())"

text \<open>
  \<open>train\<close>: the default weights, the two datasets, the samplers of the two loaders, the loop.
  It returns nothing; the model returns the state it leaves behind (the mutated model,
  optimizer and scheduler and the files written), or the exception raised. Moving the model
  and the batches to the device changes no value.
\<close>

definition train ::
  "('x, 'm, 'o, 's) collab \<Rightarrow> 'm \<Rightarrow> 'o \<Rightarrow> 's \<Rightarrow> 'x list \<Rightarrow> 'x list \<Rightarrow>
   fl list option \<Rightarrow> fl list option \<Rightarrow> train_param \<Rightarrow> string \<Rightarrow> string \<Rightarrow>
   error + ('m, 'o, 's) train_state" where
  "train c model_p optimizer_p scheduler_p trn_x val_x trn_weights val_weights p modeldir save_name =
     (let training_set = \<lparr>dataset_X = trn_x, dataset_W = weights_or_ones trn_x trn_weights\<rparr>;
          validation_set = \<lparr>dataset_X = val_x, dataset_W = weights_or_ones val_x val_weights\<rparr>
      in case batch_sampler training_set (batch_size p) of
           Inl e \<Rightarrow> Inl e
         | Inr _ \<Rightarrow>
             (case batch_sampler validation_set (eval_batch_size p) of
                Inl e \<Rightarrow> Inl e
              | Inr _ \<Rightarrow>
                  train_loop c p modeldir save_name training_set validation_set (epoch_range p)
                    (init_state model_p optimizer_p scheduler_p)))"

section \<open>The training run with another loss\<close>

text \<open>
  The loss of a batch in which every sample counts the same: each of the \<open>n\<close> samples of the
  batch \<open>x\<close> contributes its log-likelihood with the factor \<open>1 / n\<close>. The weights of the batch
  are not read.
\<close>

definition equal_contribution_loss :: "'x model \<Rightarrow> 'x list \<Rightarrow> fl list \<Rightarrow> error + fl" where
  "equal_contribution_loss model x weights =
     (case compute_log_p_x model x of
        Inl e \<Rightarrow> Inl e
      | Inr log_p \<Rightarrow>
          Inr (fl_neg (fl_sum (map (\<lambda>lp. fl_mul lp (Fin (1 / real (length x)))) log_p))))"

text \<open>
  The run to compare a run of \<open>train\<close> with: the phases of an epoch as the specification lists
  them (training batches with one optimizer step each, swap, conditional validation with its
  swap, histories, scheduler, checkpoint), where the loss of a training batch is \<open>trn_loss\<close>
  and the loss of a validation batch is \<open>val_loss\<close> instead of \<open>lossfunc\<close>.
\<close>

fun train_batches_with ::
  "('x model \<Rightarrow> 'x list \<Rightarrow> fl list \<Rightarrow> error + fl) \<Rightarrow>
   ('x, 'm, 'o, 's) collab \<Rightarrow> train_param \<Rightarrow> 'x dataset \<Rightarrow> nat list list \<Rightarrow>
   ('m, 'o, 's) train_state \<Rightarrow> fl list \<Rightarrow> error + (fl list \<times> ('m, 'o, 's) train_state)" where
  "train_batches_with trn_loss c p ds [] s train_loss = Inr (train_loss, s)"
| "train_batches_with trn_loss c p ds (index # rest) s train_loss =
     (case getitem ds index of
        Inl e \<Rightarrow> Inl e
      | Inr (batch_x, batch_weights) \<Rightarrow>
          (case trn_loss (forward c (training s) (params s)) batch_x batch_weights of
             Inl e \<Rightarrow> Inl e
           | Inr loss \<Rightarrow>
               (case opt_step c (clip_norm p) (params s) (optimizer s) batch_x batch_weights of
                  (m, opt) \<Rightarrow>
                    train_batches_with trn_loss c p ds rest (s\<lparr>params := m, optimizer := opt\<rparr>)
                      (train_loss @ [loss]))))"

fun validation_batches_with ::
  "('x model \<Rightarrow> 'x list \<Rightarrow> fl list \<Rightarrow> error + fl) \<Rightarrow>
   ('x, 'm, 'o, 's) collab \<Rightarrow> 'x dataset \<Rightarrow> nat list list \<Rightarrow>
   ('m, 'o, 's) train_state \<Rightarrow> fl list \<Rightarrow> error + fl list" where
  "validation_batches_with val_loss c ds [] s losses = Inr losses"
| "validation_batches_with val_loss c ds (index # rest) s losses =
     (case getitem ds index of
        Inl e \<Rightarrow> Inl e
      | Inr (batch_x, batch_weights) \<Rightarrow>
          (case val_loss (forward c (training s) (params s)) batch_x batch_weights of
             Inl e \<Rightarrow> Inl e
           | Inr loss \<Rightarrow> validation_batches_with val_loss c ds rest s (losses @ [loss])))"

definition train_phase_with ::
  "('x model \<Rightarrow> 'x list \<Rightarrow> fl list \<Rightarrow> error + fl) \<Rightarrow>
   ('x, 'm, 'o, 's) collab \<Rightarrow> train_param \<Rightarrow> 'x dataset \<Rightarrow> int \<Rightarrow>
   ('m, 'o, 's) train_state \<Rightarrow> error + (fl \<times> ('m, 'o, 's) train_state)" where
  "train_phase_with trn_loss c p training_set epoch s =
     (case train_batches_with trn_loss c p training_set
             (sampler c TRAIN epoch (dataset_len training_set) (batch_size p))
             (s\<lparr>training := True\<rparr>) [] of
        Inl e \<Rightarrow> Inl e
      | Inr (losses, s1) \<Rightarrow>
          (case stack_mean losses of
             Inl e \<Rightarrow> Inl e
           | Inr train_loss \<Rightarrow> Inr (train_loss, swap c s1)))"

definition validate_phase_with ::
  "('x model \<Rightarrow> 'x list \<Rightarrow> fl list \<Rightarrow> error + fl) \<Rightarrow>
   ('x, 'm, 'o, 's) collab \<Rightarrow> train_param \<Rightarrow> 'x dataset \<Rightarrow> int \<Rightarrow>
   ('m, 'o, 's) train_state \<Rightarrow> error + ('m, 'o, 's) train_state" where
  "validate_phase_with val_loss c p validation_set epoch s =
     (case validation_due epoch (evalmode p) of
        Inl e \<Rightarrow> Inl e
      | Inr False \<Rightarrow> Inr s
      | Inr True \<Rightarrow>
          (case validation_batches_with val_loss c validation_set
                  (sampler c VALIDATE epoch (dataset_len validation_set) (eval_batch_size p))
                  (s\<lparr>training := False\<rparr>) [] of
             Inl e \<Rightarrow> Inl e
           | Inr losses \<Rightarrow>
               (case stack_mean losses of
                  Inl e \<Rightarrow> Inl e
                | Inr v \<Rightarrow> Inr (swap c (s\<lparr>training := False, validation_loss := Some v\<rparr>)))))"

definition train_epoch_with ::
  "('x model \<Rightarrow> 'x list \<Rightarrow> fl list \<Rightarrow> error + fl) \<Rightarrow>
   ('x model \<Rightarrow> 'x list \<Rightarrow> fl list \<Rightarrow> error + fl) \<Rightarrow>
   ('x, 'm, 'o, 's) collab \<Rightarrow> train_param \<Rightarrow> string \<Rightarrow> string \<Rightarrow> 'x dataset \<Rightarrow> 'x dataset \<Rightarrow>
   int \<Rightarrow> ('m, 'o, 's) train_state \<Rightarrow> error + (bool \<times> ('m, 'o, 's) train_state)" where
  "train_epoch_with trn_loss val_loss c p modeldir save_name training_set validation_set epoch s =
     (case train_phase_with trn_loss c p training_set epoch s of
        Inl e \<Rightarrow> Inl e
      | Inr (train_loss, s1) \<Rightarrow>
          (case validate_phase_with val_loss c p validation_set epoch s1 of
             Inl e \<Rightarrow> Inl e
           | Inr s2 \<Rightarrow> finish_epoch c modeldir save_name epoch train_loss s2))"

fun train_loop_with ::
  "('x model \<Rightarrow> 'x list \<Rightarrow> fl list \<Rightarrow> error + fl) \<Rightarrow>
   ('x model \<Rightarrow> 'x list \<Rightarrow> fl list \<Rightarrow> error + fl) \<Rightarrow>
   ('x, 'm, 'o, 's) collab \<Rightarrow> train_param \<Rightarrow> string \<Rightarrow> string \<Rightarrow> 'x dataset \<Rightarrow> 'x dataset \<Rightarrow>
   int list \<Rightarrow> ('m, 'o, 's) train_state \<Rightarrow> error + ('m, 'o, 's) train_state" where
  "train_loop_with trn_loss val_loss c p modeldir save_name training_set validation_set [] s = Inr s"
| "train_loop_with trn_loss val_loss c p modeldir save_name training_set validation_set (epoch # rest) s =
     (case train_epoch_with trn_loss val_loss c p modeldir save_name training_set validation_set
             epoch s of
        Inl e \<Rightarrow> Inl e
      | Inr (stop, s1) \<Rightarrow>
          if stop then Inr s1
          else train_loop_with trn_loss val_loss c p modeldir save_name training_set validation_set
                 rest s1)"

text \<open>
  The whole run on given weight vectors: the samplers are built as in \<open>train\<close>, then the loop
  runs with the two losses.
\<close>

definition train_with ::
  "('x model \<Rightarrow> 'x list \<Rightarrow> fl list \<Rightarrow> error + fl) \<Rightarrow>
   ('x model \<Rightarrow> 'x list \<Rightarrow> fl list \<Rightarrow> error + fl) \<Rightarrow>
   ('x, 'm, 'o, 's) collab \<Rightarrow> 'm \<Rightarrow> 'o \<Rightarrow> 's \<Rightarrow> 'x list \<Rightarrow> 'x list \<Rightarrow>
   fl list \<Rightarrow> fl list \<Rightarrow> train_param \<Rightarrow> string \<Rightarrow> string \<Rightarrow>
   error + ('m, 'o, 's) train_state" where
  "train_with trn_loss val_loss c model_p optimizer_p scheduler_p trn_x val_x trn_w val_w p
     modeldir save_name =
     (let training_set = \<lparr>dataset_X = trn_x, dataset_W = trn_w\<rparr>;
          validation_set = \<lparr>dataset_X = val_x, dataset_W = val_w\<rparr>
      in case batch_sampler training_set (batch_size p) of
           Inl e \<Rightarrow> Inl e
         | Inr _ \<Rightarrow>
             (case batch_sampler validation_set (eval_batch_size p) of
                Inl e \<Rightarrow> Inl e
              | Inr _ \<Rightarrow>
                  train_loop_with trn_loss val_loss c p modeldir save_name training_set
                    validation_set (epoch_range p) (init_state model_p optimizer_p scheduler_p)))"

section \<open>Runs of the training loop\<close>

text \<open>
  The local variable \<open>validation_loss\<close> agrees with the history \<open>val_losses\<close>: nothing is
  logged while the variable is unbound, and once it is bound its value is the last one logged.
\<close>

definition history_consistent :: "('m, 'o, 's) train_state \<Rightarrow> bool" where
  "history_consistent s =
     (case validation_loss s of
        None \<Rightarrow> val_losses s = []
      | Some v \<Rightarrow> val_losses s \<noteq> [] \<and> last (val_losses s) = v)"

text \<open>
  A small instance of the collaborators, to run the loop on: the identity flow as forward
  pass, an optimizer step that counts the steps, a swap that exchanges the two stored values,
  a scheduler that never stops and a sampler that draws all rows in order as one batch (a
  draw the batch sampler can make when the dataset is no larger than the batch size).
\<close>

definition demo_collab :: "(fl list, nat, nat, unit) collab" where
  "demo_collab =
     \<lparr>forward = (\<lambda>mode m. identity_flow),
      opt_step = (\<lambda>clip m opt batch_x batch_weights. (Suc m, opt)),
      opt_swap = (\<lambda>m opt. (opt, m)),
      sched_step = (\<lambda>sch v. (False, sch)),
      sampler = (\<lambda>ph epoch n bs. if n = 0 then [] else [[0..<n]])\<rparr>"

text \<open>Three epochs from epoch 0, with a validation every second epoch.\<close>

definition demo_train_param :: train_param where
  "demo_train_param =
     \<lparr>batch_size = 2, start_epoch = 0, epochs = 3, clip_norm = Fin 1, eval_batch_size = 2,
      evalmode = 2\<rparr>"

text \<open>Two rows at the origin with the weights 1 and 3.\<close>

definition demo_set :: "fl list dataset" where
  "demo_set = \<lparr>dataset_X = [[Fin 0], [Fin 0]], dataset_W = [Fin 1, Fin 3]\<rparr>"

text \<open>One epoch of a run resumed at epoch 1, with a validation every second epoch.\<close>

definition demo_resume_param :: train_param where
  "demo_resume_param = demo_train_param\<lparr>start_epoch := 1, epochs := 1\<rparr>"

section \<open>Properties of the density\<close>

lemma normal_log_prob_std:
  "normal_log_prob (Fin 0) (Fin 1) v = std_gauss_log_density v"
proof (cases v)
  case (Fin r)
  have pos: "0 < exp (- (r * r) / 2) / sqrt (2 * pi)"
    by simp
  have "ln (exp (- (r * r) / 2) / sqrt (2 * pi)) = - (r * r) / 2 - ln (sqrt (2 * pi))"
    by (simp add: ln_div)
  with pos Fin show ?thesis
    by (simp add: normal_log_prob_def std_gauss_log_density_def fl_sub_def)
next
  case PInf
  then show ?thesis
    by (simp add: normal_log_prob_def std_gauss_log_density_def fl_sub_def signed_inf_def)
next
  case NInf
  then show ?thesis
    by (simp add: normal_log_prob_def std_gauss_log_density_def fl_sub_def signed_inf_def)
next
  case NaN
  then show ?thesis
    by (simp add: normal_log_prob_def std_gauss_log_density_def fl_sub_def)
qed

lemma validate_sample_nan_free:
  "list_ex (list_ex isnan) (map fst (map model x)) \<longleftrightarrow> \<not> nan_free model x"
  by (auto simp: nan_free_def list_ex_iff)

lemma compute_log_p_x_ok:
  assumes "nan_free model x"
  shows "compute_log_p_x model x =
           Inr (map (\<lambda>xi. fl_add (fl_sum (map (normal_log_prob (Fin 0) (Fin 1)) (fst (model xi))))
                              (snd (model xi))) x)"
proof -
  have "map2 fl_add (map fl_sum (map (map (normal_log_prob (Fin 0) (Fin 1))) (map fst (map model x))))
          (map snd (map model x)) =
        map (\<lambda>xi. fl_add (fl_sum (map (normal_log_prob (Fin 0) (Fin 1)) (fst (model xi))))
                              (snd (model xi))) x"
    by (intro nth_equalityI) simp_all
  with assms show ?thesis
    by (simp add: compute_log_p_x_def log_prob_def Let_def validate_sample_nan_free
        del: map_map)
qed

lemma compute_log_p_x_raises:
  assumes "\<not> nan_free model x"
  shows "compute_log_p_x model x = Inl ValueError"
  using assms by (simp add: compute_log_p_x_def log_prob_def Let_def validate_sample_nan_free
      del: map_map)

lemma compute_log_p_x_Inr:
  assumes "compute_log_p_x model x = Inr log_p"
  shows "nan_free model x \<and> length log_p = length x"
proof -
  from assms have nf: "nan_free model x"
    by (cases "nan_free model x") (simp_all add: compute_log_p_x_raises)
  from compute_log_p_x_ok [OF nf] assms show ?thesis
    using nf by auto
qed

lemma compute_log_p_x_Inl:
  assumes "compute_log_p_x model x = Inl e"
  shows "e = ValueError \<and> \<not> nan_free model x"
  using assms compute_log_p_x_ok [of model x] compute_log_p_x_raises [of model x]
  by (cases "nan_free model x") simp_all

theorem compute_log_p_x_nan_counterexample:
  "compute_log_p_x identity_flow [[NaN]] = Inl ValueError"
  by (simp add: compute_log_p_x_def log_prob_def identity_flow_def)

text \<open>
  C1 (amended). For every model and every batch whose transformed points hold no NaN,
  \<open>compute_log_p_x\<close> returns for each sample the sum over the output dimensions of the standard
  Gaussian log-density at the transformed point \<open>y\<close>, plus the accumulated log-determinant
  \<open>log_diag\<close>, where \<open>(y, log_diag) = model x\<close>. When an entry of a transformed point is NaN, the
  argument check of the distribution raises \<^verbatim>\<open>ValueError\<close> and nothing is returned.
\<close>

theorem compute_log_p_x_change_of_variables:
  "(nan_free model x \<longrightarrow>
      compute_log_p_x model x =
        Inr (map (\<lambda>xi. fl_add (fl_sum (map std_gauss_log_density (fst (model xi)))) (snd (model xi)))
                 x)) \<and>
   (\<not> nan_free model x \<longrightarrow> compute_log_p_x model x = Inl ValueError)"
proof -
  have "normal_log_prob (Fin 0) (Fin 1) = std_gauss_log_density"
    by (rule ext) (rule normal_log_prob_std)
  then show ?thesis
    using compute_log_p_x_ok [of model x] compute_log_p_x_raises [of model x] by simp
qed

lemma std_gauss_log_density_0: "std_gauss_log_density (Fin 0) = Fin (- ln (sqrt (2 * pi)))"
  by (simp add: std_gauss_log_density_def ln_div)

lemma std_gauss_log_density_PInf: "std_gauss_log_density PInf = NInf"
  by (simp add: std_gauss_log_density_def)

theorem compute_log_p_x_change_of_variables_witness:
  "compute_log_p_x identity_flow [[Fin 0, Fin 0], [Fin 0, PInf]] =
     Inr [Fin (- ln (sqrt (2 * pi)) - ln (sqrt (2 * pi))), NInf]"
proof -
  have nf: "nan_free identity_flow [[Fin 0, Fin 0], [Fin 0, PInf]]"
    by (simp add: nan_free_def identity_flow_def)
  from compute_log_p_x_change_of_variables [of identity_flow "[[Fin 0, Fin 0], [Fin 0, PInf]]"] nf
  have "compute_log_p_x identity_flow [[Fin 0, Fin 0], [Fin 0, PInf]] =
      Inr (map (\<lambda>xi. fl_add (fl_sum (map std_gauss_log_density (fst (identity_flow xi))))
                        (snd (identity_flow xi))) [[Fin 0, Fin 0], [Fin 0, PInf]])"
    by blast
  then show ?thesis
    by (simp add: identity_flow_def fl_sum_def std_gauss_log_density_0 std_gauss_log_density_PInf)
qed

section \<open>Properties of the likelihood ratio\<close>

lemma get_pdf_Inr:
  assumes "get_pdf m X = Inr pdf"
  shows "nan_free m X \<and> length pdf = length X \<and> (\<exists>log_p. compute_log_p_x m X = Inr log_p \<and> pdf = map fl_exp log_p)"
proof -
  from assms obtain log_p where lp: "compute_log_p_x m X = Inr log_p" and pdf: "pdf = map fl_exp log_p"
    by (auto simp: get_pdf_def split: sum.splits)
  from compute_log_p_x_Inr [OF lp] lp pdf show ?thesis by simp
qed

lemma get_pdf_ok:
  assumes "nan_free m X"
  shows "\<exists>pdf. get_pdf m X = Inr pdf \<and> length pdf = length X"
  using compute_log_p_x_ok [OF assms] by (simp add: get_pdf_def)

lemma get_pdf_raises:
  assumes "\<not> nan_free m X"
  shows "get_pdf m X = Inl ValueError"
  using compute_log_p_x_raises [OF assms] by (simp add: get_pdf_def)

lemma predict_rows:
  assumes bg: "get_pdf bg X = Inr pdf_B"
    and sg: "get_pdf sg X = Inr pdf_S"
  shows "predict X (bg # sg # ms) rp eps =
     Inr (map (\<lambda>i. let q = ratio_spec (default_arg True rp) (default_arg (Fin (1 / 10 ^ 9)) eps)
                              (pdf_S ! i) (pdf_B ! i)
                    in if isfinite q then q else Fin 0) [0..<length X])"
proof -
  from get_pdf_Inr [OF bg] get_pdf_Inr [OF sg]
  have len: "length pdf_B = length X" "length pdf_S = length X" by simp_all
  then show ?thesis
    by (auto simp: predict_def list_item_def bg sg Let_def np_divide_def np_clip_min_def np_add_def
        zero_nonfinite_def ratio_spec_def intro!: nth_equalityI)
qed

lemma predict_raises:
  assumes "\<not> (nan_free bg X \<and> nan_free sg X)"
  shows "predict X (bg # sg # ms) rp eps = Inl ValueError"
proof (cases "nan_free bg X")
  case False
  from get_pdf_raises [OF this] show ?thesis
    by (simp add: predict_def list_item_def Let_def)
next
  case True
  with assms have "\<not> nan_free sg X" by simp
  from get_pdf_raises [OF this] get_pdf_ok [OF True] show ?thesis
    by (auto simp: predict_def list_item_def Let_def)
qed

lemma pdf0: "get_pdf identity_flow [[Fin 0]] = Inr [Fin (1 / sqrt (2 * pi))]"
  by (simp add: get_pdf_def compute_log_p_x_def log_prob_def identity_flow_def fl_sum_def
      normal_log_prob_def fl_sub_def exp_diff exp_minus field_simps)

lemma pdf10: "get_pdf identity_flow [[Fin 10]] = Inr [Fin (exp (- 50) / sqrt (2 * pi))]"
  by (simp add: get_pdf_def compute_log_p_x_def log_prob_def identity_flow_def fl_sum_def
   normal_log_prob_def fl_sub_def exp_diff exp_minus field_simps)

lemma pdf_diverged: "get_pdf diverged_flow [[Fin 0]] = Inr [PInf]"
  by (simp add: get_pdf_def compute_log_p_x_def log_prob_def diverged_flow_def fl_sum_def
      normal_log_prob_def fl_sub_def)

lemma pdf_nan: "get_pdf identity_flow [[NaN]] = Inl ValueError"
  by (simp add: get_pdf_def compute_log_p_x_def log_prob_def identity_flow_def)

theorem predict_ratio_counterexample:
  "predict [[Fin 0]] [identity_flow, diverged_flow] (Some False) None = Inr [Fin 0] \<and>
   get_pdf identity_flow [[Fin 0]] = Inr [Fin (1 / sqrt (2 * pi))] \<and>
   get_pdf diverged_flow [[Fin 0]] = Inr [PInf] \<and>
   ratio_spec False (Fin (1 / 10 ^ 9)) PInf (Fin (1 / sqrt (2 * pi))) = PInf \<and>
   predict [[NaN]] [identity_flow, identity_flow] None None = Inl ValueError"
proof -
  have q: "ratio_spec False (Fin (1 / 10 ^ 9)) PInf (Fin (1 / sqrt (2 * pi))) = PInf"
    by (simp add: ratio_spec_def signed_inf_def)
  have "predict [[Fin 0]] [identity_flow, diverged_flow] (Some False) None = Inr [Fin 0]"
    unfolding predict_rows [OF pdf0 pdf_diverged]
    by (simp add: default_arg_def ratio_spec_def signed_inf_def)
  moreover have "predict [[NaN]] [identity_flow, identity_flow] None None = Inl ValueError"
    by (simp add: predict_def list_item_def pdf_nan)
  ultimately show ?thesis using q pdf0 pdf_diverged by simp
qed

lemma exp50: "exp (- 50 :: real) \<le> 1 / 2 ^ 50"
proof -
  have "(2::real) \<le> exp 1" using exp_ge_add_one_self [of "1::real"] by simp
  then have "(2::real) ^ 50 \<le> exp 1 ^ 50" by (rule power_mono) simp
  also have "exp (1::real) ^ 50 = exp 50" using exp_of_nat_mult [of 50 "1::real"] by simp
  finally have "(2::real) ^ 50 \<le> exp 50" .
  then have "1 / exp (50::real) \<le> 1 / 2 ^ 50" by (intro divide_left_mono) simp_all
  then show ?thesis by (simp add: exp_minus inverse_eq_divide)
qed

lemma sqrt2pi: "1 \<le> sqrt (2 * pi)"
proof -
  have "1 \<le> 2 * pi" using pi_ge_two by linarith
  then show ?thesis by (rule real_sqrt_ge_one)
qed

lemma div_ge_one:
  fixes a s :: real
  assumes "0 \<le> a" "1 \<le> s"
  shows "a / s \<le> a"
proof -
  have "a * 1 \<le> a * s" using assms by (intro mult_left_mono) simp_all
  with assms show ?thesis by (simp add: field_simps)
qed

lemma tiny: "exp (- 50) / sqrt (2 * pi) \<le> 1 / 2 ^ 50"
proof -
  have "exp (- 50) / sqrt (2 * pi) \<le> exp (- 50 :: real)"
    by (rule div_ge_one) (simp, rule sqrt2pi)
  also note exp50
  finally show ?thesis .
qed

lemma ratio_below_eps:
  fixes p e :: real
  assumes "2 * p \<le> e" "0 < e"
  shows "ratio_spec True (Fin e) (Fin p) (Fin p) = Fin (p / e)"
proof -
  have "max (p + p) e = e" using assms by (simp add: max_def)
  with assms show ?thesis
    by (simp add: ratio_spec_def del: max.absorb1 max.absorb2 max.absorb3 max.absorb4)
qed

theorem predict_identical_counterexample:
  "predict [[Fin 10]] [identity_flow, identity_flow] (Some True) None
     = Inr [Fin (exp (- 50) / sqrt (2 * pi) / (1 / 10 ^ 9))]
   \<and> exp (- 50) / sqrt (2 * pi) / (1 / 10 ^ 9) < (1 / 1000 :: real)"
proof -
  define p :: real where "p = exp (- 50) / sqrt (2 * pi)"
  define e :: real where "e = 1 / 10 ^ 9"
  have p: "p \<le> 1 / 2 ^ 50" unfolding p_def by (rule tiny)
  have pe: "2 * p \<le> e" "0 < e" using p by (simp_all add: e_def)
  have pdf: "get_pdf identity_flow [[Fin 10]] = Inr [Fin p]" unfolding p_def by (rule pdf10)
  have "predict [[Fin 10]] [identity_flow, identity_flow] (Some True) None = Inr [Fin (p / e)]"
    unfolding predict_rows [OF pdf pdf] default_arg_def e_def [symmetric]
    by (simp add: ratio_below_eps [OF pe])
  moreover have "p / e < 1 / 1000" using p by (simp add: e_def)
  ultimately show ?thesis unfolding p_def e_def by simp
qed

lemma prob_fin_ratio:
  fixes a d :: real
  assumes "0 \<le> a" "a \<le> d"
  shows "\<exists>r. (let q = fl_div (Fin a) (Fin d) in if isfinite q then q else Fin 0) = Fin r
            \<and> 0 \<le> r \<and> r \<le> 1"
proof (cases "d = 0")
  case True
  with assms show ?thesis by (simp add: signed_inf_def)
next
  case False
  with assms have "0 < d" by simp
  with assms have "0 \<le> a / d \<and> a / d \<le> 1" by simp
  with False show ?thesis by simp
qed

lemma prob_fin_unit:
  fixes a c :: real
  assumes "0 \<le> a" "0 \<le> c"
  shows "\<exists>r. (let q = fl_div (Fin a) (fl_maximum (Fin (a + c)) E) in if isfinite q then q else Fin 0) = Fin r
            \<and> 0 \<le> r \<and> r \<le> 1"
proof (cases E)
  case (Fin e)
  have "a \<le> max (a + c) e" using assms by simp
  from prob_fin_ratio [OF assms(1) this] Fin show ?thesis by simp
next
  case NInf
  have "a \<le> a + c" using assms by simp
  from prob_fin_ratio [OF assms(1) this] NInf show ?thesis by simp
qed simp_all

lemma finite_pdf_nonneg:
  assumes "get_pdf m X = Inr pdf" "i < length X" "isfinite (pdf ! i)"
  shows "\<exists>r. 0 \<le> r \<and> pdf ! i = Fin r"
proof -
  from get_pdf_Inr [OF assms(1)] obtain log_p where
    "length pdf = length X" "pdf = map fl_exp log_p" by auto
  with assms(2,3) show ?thesis
    by (cases "log_p ! i") simp_all
qed

lemma ratio_identical:
  fixes p e :: real
  assumes "0 < p" "e \<le> 2 * p"
  shows "ratio_spec True (Fin e) (Fin p) (Fin p) = Fin (1 / 2)"
proof -
  have "max (p + p) e = 2 * p" using assms by (simp add: max_def)
  with assms show ?thesis
    by (simp add: ratio_spec_def del: max.absorb1 max.absorb2 max.absorb3 max.absorb4)
qed

text \<open>
  C3 (amended). For every input matrix \<open>X\<close> and models with \<open>models[0]\<close> the background and
  \<open>models[1]\<close> the signal model, such that no transformed point of either model holds a NaN,
  \<open>predict\<close> returns at every row \<open>pdf_S / clip (pdf_S + pdf_B, EPS, inf)\<close> when \<open>return_prob\<close> is true
  and \<open>pdf_S / clip (pdf_B, EPS, inf)\<close> otherwise if that quotient is finite, and 0 if it is NaN or
  infinite, where \<open>pdf_S\<close> and \<open>pdf_B\<close> are the \<open>get_pdf\<close> values of the two models, \<open>return_prob\<close>
  defaults to true and \<open>EPS\<close> to \<open>1e-9\<close>. When a transformed point holds a NaN, \<open>predict\<close> raises
  \<^verbatim>\<open>ValueError\<close>.
\<close>

theorem predict_finite_ratio:
  "(nan_free bg X \<and> nan_free sg X \<longrightarrow>
      (\<exists>pdf_B pdf_S out.
         get_pdf bg X = Inr pdf_B \<and> get_pdf sg X = Inr pdf_S \<and>
         predict X (bg # sg # ms) return_prob EPS = Inr out \<and> length out = length X \<and>
         (\<forall>i<length X.
            out ! i =
              (let q = ratio_spec (default_arg True return_prob) (default_arg (Fin (1 / 10 ^ 9)) EPS)
                         (pdf_S ! i) (pdf_B ! i)
               in if isfinite q then q else Fin 0)))) \<and>
   (\<not> (nan_free bg X \<and> nan_free sg X) \<longrightarrow>
      predict X (bg # sg # ms) return_prob EPS = Inl ValueError)"
proof (cases "nan_free bg X \<and> nan_free sg X")
  case True
  from True get_pdf_ok [of bg X] get_pdf_ok [of sg X] obtain pdf_B pdf_S where
    bg: "get_pdf bg X = Inr pdf_B" and sg: "get_pdf sg X = Inr pdf_S" by auto
  from True bg sg predict_rows [OF bg sg, of ms return_prob EPS] show ?thesis by simp
next
  case False
  with predict_raises [OF False] show ?thesis by simp
qed

text \<open>
  C4. For every input of \<open>predict\<close> for which the quotient is formed (no transformed point
  holds a NaN), with either value of \<open>return_prob\<close>, every entry of the quotient that is not finite
  (NaN or infinite) is exactly 0 in the returned array and no error is raised for it. An array
  that \<open>predict\<close> returns has no non-finite entry, and the only error \<open>predict\<close> raises on two
  models is the \<^verbatim>\<open>ValueError\<close> of the argument check on a NaN among the transformed points.
\<close>

theorem predict_zero_nonfinite:
  "(nan_free bg X \<and> nan_free sg X \<longrightarrow>
      (\<exists>pdf_B pdf_S out.
         get_pdf bg X = Inr pdf_B \<and> get_pdf sg X = Inr pdf_S \<and>
         predict X (bg # sg # ms) return_prob EPS = Inr out \<and> length out = length X \<and>
         (\<forall>i<length X.
            \<not> isfinite (ratio_spec (default_arg True return_prob)
                          (default_arg (Fin (1 / 10 ^ 9)) EPS) (pdf_S ! i) (pdf_B ! i))
            \<longrightarrow> out ! i = Fin 0))) \<and>
   (\<forall>out. predict X (bg # sg # ms) return_prob EPS = Inr out \<longrightarrow> (\<forall>v\<in>set out. isfinite v)) \<and>
   (\<forall>e. predict X (bg # sg # ms) return_prob EPS = Inl e \<longrightarrow>
        e = ValueError \<and> \<not> (nan_free bg X \<and> nan_free sg X))"
proof (cases "nan_free bg X \<and> nan_free sg X")
  case True
  from True get_pdf_ok [of bg X] get_pdf_ok [of sg X] obtain pdf_B pdf_S where
    bg: "get_pdf bg X = Inr pdf_B" and sg: "get_pdf sg X = Inr pdf_S" by auto
  from True bg sg predict_rows [OF bg sg, of ms return_prob EPS] show ?thesis
    by (auto simp: Let_def)
next
  case False
  with predict_raises [OF False] show ?thesis by simp
qed

text \<open>
  C7 (amended). For all inputs on which both densities are evaluated and finite, \<open>predict\<close>
  with \<open>return_prob\<close> true returns a value in the closed interval \<open>[0, 1]\<close> at every row. When the
  signal model is the background model, the value of a row is \<open>1/2\<close> whenever the density \<open>p\<close> of
  the model at the row is positive with \<open>EPS \<le> 2 p\<close> and \<open>2 p\<close> is at most the largest finite
  single-precision number. (Below \<open>EPS / 2\<close> the clipping decides: a row ten standard
  deviations out gets less than a thousandth.)
\<close>

theorem predict_prob_range:
  assumes bg: "get_pdf bg X = Inr pdf_B"
    and sg: "get_pdf sg X = Inr pdf_S"
    and fin: "list_all isfinite pdf_B" "list_all isfinite pdf_S"
  shows "\<exists>out. predict X (bg # sg # ms) (Some True) EPS = Inr out \<and> length out = length X \<and>
     (\<forall>v\<in>set out. \<exists>r. v = Fin r \<and> 0 \<le> r \<and> r \<le> 1) \<and>
     (sg = bg \<longrightarrow>
        (\<forall>i<length X. \<forall>p e.
           pdf_B ! i = Fin p \<and> default_arg (Fin (1 / 10 ^ 9)) EPS = Fin e \<and>
           0 < p \<and> e \<le> 2 * p \<and> 2 * p \<le> float32_max
           \<longrightarrow> out ! i = Fin (1 / 2)))"
proof -
  let ?E = "default_arg (Fin (1 / 10 ^ 9)) EPS"
  let ?row = "\<lambda>i. let q = ratio_spec True ?E (pdf_S ! i) (pdf_B ! i)
                   in if isfinite q then q else Fin 0"
  let ?out = "map ?row [0..<length X]"
  from get_pdf_Inr [OF bg] get_pdf_Inr [OF sg]
  have len: "length pdf_B = length X" "length pdf_S = length X" by simp_all
  have p: "predict X (bg # sg # ms) (Some True) EPS = Inr ?out"
    using predict_rows [OF bg sg, of ms "Some True" EPS] by (simp add: default_arg_def)
  have range: "\<exists>r. v = Fin r \<and> 0 \<le> r \<and> r \<le> 1" if "v \<in> set ?out" for v
  proof -
    from that obtain i where i: "i < length X" and v: "v = ?row i" by auto
    from fin len i have "isfinite (pdf_B ! i)" "isfinite (pdf_S ! i)"
      by (simp_all add: list_all_length)
    with finite_pdf_nonneg [OF bg i] finite_pdf_nonneg [OF sg i] obtain a c where
      ac: "0 \<le> a" "0 \<le> c" "pdf_S ! i = Fin a" "pdf_B ! i = Fin c" by auto
    from prob_fin_unit [OF ac(1,2), of ?E] ac(3,4) v show ?thesis
      by (simp add: ratio_spec_def)
  qed
  have same: "?out ! i = Fin (1 / 2)"
    if "sg = bg" "i < length X" "pdf_B ! i = Fin p" "0 < p" "?E = Fin e" "e \<le> 2 * p" for i p e
  proof -
    from that(1) bg sg have "pdf_S = pdf_B" by simp
    with that ratio_identical [of p e] show ?thesis by simp
  qed
  from p range same show ?thesis by (intro exI [of _ ?out]) simp
qed

lemma sqrt2pi_le: "sqrt (2 * pi) \<le> 3"
proof -
  have "2 * pi \<le> 3\<^sup>2" using pi_less_4 by simp
  then have "sqrt (2 * pi) \<le> sqrt (3\<^sup>2)" by (rule real_sqrt_le_mono)
  then show ?thesis by simp
qed

lemma pdf0_bounds: "0 < 1 / sqrt (2 * pi)" "1 / 10 ^ 9 \<le> 2 * (1 / sqrt (2 * pi))"
  "2 * (1 / sqrt (2 * pi)) \<le> float32_max"
proof -
  show "0 < 1 / sqrt (2 * pi)" by simp
  have "1 / 3 \<le> 1 / sqrt (2 * pi)"
    by (rule divide_left_mono) (use sqrt2pi_le in simp_all)
  then show "1 / 10 ^ 9 \<le> 2 * (1 / sqrt (2 * pi))" by simp
  have "1 / sqrt (2 * pi) \<le> 1"
    using sqrt2pi by simp
  then have "2 * (1 / sqrt (2 * pi)) \<le> 2 * 1"
    by (intro mult_left_mono) simp_all
  also have "2 * 1 \<le> float32_max"
    by (simp add: float32_max_def)
  finally show "2 * (1 / sqrt (2 * pi)) \<le> float32_max" .
qed

theorem predict_prob_range_witness:
  "predict [[Fin 0]] [identity_flow, identity_flow] (Some True) None = Inr [Fin (1 / 2)]"
proof -
  have fin: "list_all isfinite [Fin (1 / sqrt (2 * pi))]" by simp
  from predict_prob_range [OF pdf0 pdf0 fin fin, of "[]" None]
  obtain out where out: "predict [[Fin 0]] [identity_flow, identity_flow] (Some True) None = Inr out"
    and len: "length out = 1"
    and half: "\<forall>i<length [[Fin 0]]. \<forall>p e.
           [Fin (1 / sqrt (2 * pi))] ! i = Fin p \<and> default_arg (Fin (1 / 10 ^ 9)) None = Fin e \<and>
           0 < p \<and> e \<le> 2 * p \<and> 2 * p \<le> float32_max
           \<longrightarrow> out ! i = Fin (1 / 2)"
    by auto
  have "[Fin (1 / sqrt (2 * pi))] ! 0 = Fin (1 / sqrt (2 * pi))"
    by simp
  moreover have "default_arg (Fin (1 / 10 ^ 9)) None = Fin (1 / 10 ^ 9)"
    by (simp add: default_arg_def)
  moreover have "(0::nat) < length [[Fin 0]]"
    by simp
  ultimately have "out ! 0 = Fin (1 / 2)"
    using half pdf0_bounds by blast
  with len have "out = [Fin (1 / 2)]" by (cases out) simp_all
  with out show ?thesis by simp
qed

theorem predict_finite_ratio_witness:
  "predict [[Fin 0]] [identity_flow, diverged_flow] None None = Inr [Fin 0] \<and>
   predict [[Fin 0]] [identity_flow, identity_flow] None None = Inr [Fin (1 / 2)]"
proof -
  have nf: "nan_free identity_flow [[Fin 0]]" "nan_free diverged_flow [[Fin 0]]"
    by (simp_all add: nan_free_def identity_flow_def diverged_flow_def)
  have q2: "ratio_spec True (Fin (1 / 1000000000)) (Fin (1 / sqrt (2 * pi))) (Fin (1 / sqrt (2 * pi))) =
      Fin (1 / 2)"
    using ratio_identical [OF pdf0_bounds(1,2)] by simp
  from predict_finite_ratio [of identity_flow "[[Fin 0]]" diverged_flow "[]" None None] nf
  obtain out where o: "predict [[Fin 0]] [identity_flow, diverged_flow] None None = Inr out"
    and l: "length out = length [[Fin (0::real)]]"
    and r: "\<forall>i<length [[Fin (0::real)]]. out ! i =
              (let q = ratio_spec (default_arg True None) (default_arg (Fin (1 / 10 ^ 9)) None)
                         ([PInf] ! i) ([Fin (1 / sqrt (2 * pi))] ! i)
               in if isfinite q then q else Fin 0)"
    by (auto simp: pdf0 pdf_diverged)
  from r have "out ! 0 = Fin 0" by (simp add: default_arg_def ratio_spec_def)
  with l have "out = [Fin 0]" by (cases out) simp_all
  with o have a: "predict [[Fin 0]] [identity_flow, diverged_flow] None None = Inr [Fin 0]" by simp
  from predict_finite_ratio [of identity_flow "[[Fin 0]]" identity_flow "[]" None None] nf
  obtain out' where o': "predict [[Fin 0]] [identity_flow, identity_flow] None None = Inr out'"
    and l': "length out' = length [[Fin (0::real)]]"
    and r': "\<forall>i<length [[Fin (0::real)]]. out' ! i =
              (let q = ratio_spec (default_arg True None) (default_arg (Fin (1 / 10 ^ 9)) None)
                         ([Fin (1 / sqrt (2 * pi))] ! i) ([Fin (1 / sqrt (2 * pi))] ! i)
               in if isfinite q then q else Fin 0)"
    by (auto simp: pdf0)
  from r' have "out' ! 0 = Fin (1 / 2)" by (simp add: default_arg_def q2)
  with l' have "out' = [Fin (1 / 2)]" by (cases out') simp_all
  with o' a show ?thesis by simp
qed

theorem predict_zero_nonfinite_witness:
  "predict [[Fin 0]] [diverged_flow, diverged_flow] (Some False) None = Inr [Fin 0]"
proof -
  have nf: "nan_free diverged_flow [[Fin 0]]"
    by (simp add: nan_free_def diverged_flow_def)
  have q: "\<not> isfinite (ratio_spec False (Fin (1 / 10 ^ 9)) PInf PInf)"
    by (simp add: ratio_spec_def)
  from predict_zero_nonfinite [of diverged_flow "[[Fin 0]]" diverged_flow "[]" "Some False" None] nf
  obtain out where o: "predict [[Fin 0]] [diverged_flow, diverged_flow] (Some False) None = Inr out"
    and l: "length out = length [[Fin (0::real)]]"
    and z: "\<forall>i<length [[Fin (0::real)]].
            \<not> isfinite (ratio_spec (default_arg True (Some False))
                          (default_arg (Fin (1 / 10 ^ 9)) None) ([PInf] ! i) ([PInf] ! i))
            \<longrightarrow> out ! i = Fin 0"
    by (auto simp: pdf_diverged)
  from z q have "out ! 0 = Fin 0" by (simp add: default_arg_def)
  with l have "out = [Fin 0]" by (cases out) simp_all
  with o show ?thesis by simp
qed

section \<open>Properties of create_model\<close>

lemma concat_replicate_snoc: "concat (replicate m xs) @ xs = xs @ concat (replicate m xs)"
  by (induction m) simp_all

lemma interior_blocks:
  assumes "int m \<le> F - 1"
  shows "concat (map (\<lambda>f. B (if f < F - 1 then r else None) # (if f < F - 1 then [P] else []))
                     (map int [0..<m]))
         = concat (replicate m [B r, P])"
  using assms
proof (induction m)
  case 0
  then show ?case by simp
next
  case (Suc m)
  then have "int m < F - 1" by simp
  with Suc concat_replicate_snoc [of m "[B r, P]"] show ?case by simp
qed

lemma length_concat_pairs: "length (concat (replicate m [a, b])) = 2 * m"
  by (induction m) simp_all

lemma nth_concat_pairs:
  "k < m \<Longrightarrow> concat (replicate m [a, b]) ! (2 * k) = a \<and> concat (replicate m [a, b]) ! (2 * k + 1) = b"
proof (induction m arbitrary: k)
  case 0
  then show ?case by simp
next
  case (Suc m)
  then show ?case by (cases k) simp_all
qed

lemma filter_concat_pairs:
  "Q a \<Longrightarrow> \<not> Q b \<Longrightarrow> filter Q (concat (replicate m [a, b])) = replicate m a"
  by (induction m) simp_all

lemma filter_concat_pairs_snd:
  "\<not> Q a \<Longrightarrow> Q b \<Longrightarrow> filter Q (concat (replicate m [a, b])) = replicate m b"
  by (induction m) simp_all

lemma create_model_shape:
  assumes "nat (flows param) = Suc m"
  shows "modules (create_model param) =
           concat (replicate m
                     [BNAF (block_layers param) (residual param),
                      Permutation (n_dims param) (perm param)])
           @ [BNAF (block_layers param) None]"
proof -
  from assms have F: "int m = flows param - 1" by linarith
  then have "int m \<le> flows param - 1" by simp
  from interior_blocks [OF this, of "BNAF (block_layers param)" "residual param"
      "Permutation (n_dims param) (perm param)"]
  show ?thesis using assms F by (simp add: create_model_def py_range_def)
qed

text \<open>
  C8. For every parameter set with \<open>flows \<ge> 1\<close>, \<open>create_model\<close> builds a \<open>Sequential\<close> with
  exactly \<open>flows\<close> BNAF flow blocks and exactly \<open>flows - 1\<close> permutation layers, one between each
  pair of consecutive flow blocks (blocks at the even positions, permutations at the odd ones);
  every flow block but the last is built with \<^verbatim>\<open>res=param['residual']\<close>, the last with no
  residual.
\<close>

theorem create_model_structure:
  assumes "1 \<le> flows param"
  shows "length (modules (create_model param)) = nat (2 * flows param - 1) \<and>
         length (filter is_BNAF (modules (create_model param))) = nat (flows param) \<and>
         length (filter (\<lambda>m. \<not> is_BNAF m) (modules (create_model param))) = nat (flows param - 1) \<and>
         (\<forall>k < nat (flows param - 1).
            modules (create_model param) ! (2 * k) = BNAF (block_layers param) (residual param) \<and>
            modules (create_model param) ! (2 * k + 1) = Permutation (n_dims param) (perm param)) \<and>
         modules (create_model param) ! (2 * nat (flows param - 1)) = BNAF (block_layers param) None"
proof -
  let ?B = "BNAF (block_layers param) (residual param)"
  let ?P = "Permutation (n_dims param) (perm param)"
  obtain m where m: "nat (flows param) = Suc m"
    using assms by (cases "nat (flows param)") simp_all
  then have m1: "nat (flows param - 1) = m" and m2: "nat (2 * flows param - 1) = 2 * m + 1"
    by linarith+
  note shape = create_model_shape [OF m]
  have len: "length (modules (create_model param)) = 2 * m + 1"
    by (simp add: shape length_concat_pairs)
  have "filter is_BNAF (concat (replicate m [?B, ?P])) = replicate m ?B"
    by (rule filter_concat_pairs) simp_all
  then have nB: "length (filter is_BNAF (modules (create_model param))) = Suc m"
    by (simp add: shape)
  have "filter (\<lambda>m. \<not> is_BNAF m) (concat (replicate m [?B, ?P])) = replicate m ?P"
    by (rule filter_concat_pairs_snd) simp_all
  then have nP: "length (filter (\<lambda>m. \<not> is_BNAF m) (modules (create_model param))) = m"
    by (simp add: shape)
  have inner: "modules (create_model param) ! (2 * k) = ?B \<and>
      modules (create_model param) ! (2 * k + 1) = ?P" if "k < m" for k
    using that nth_concat_pairs [OF that, of ?B ?P]
    by (simp add: shape nth_append length_concat_pairs)
  have last: "modules (create_model param) ! (2 * m) = BNAF (block_layers param) None"
    by (simp add: shape nth_append length_concat_pairs)
  from len nB nP inner last show ?thesis
    by (simp add: m m1 m2)
qed

theorem create_model_structure_witness:
  "modules (create_model demo_param) =
     [BNAF [MaskedWeight 2 8 2, Tanh, MaskedWeight 8 8 2, Tanh, MaskedWeight 8 2 2] (Some ''gated''),
      Permutation 2 [1, 0],
      BNAF [MaskedWeight 2 8 2, Tanh, MaskedWeight 8 8 2, Tanh, MaskedWeight 8 2 2] None]"
proof -
  have f: "1 \<le> flows demo_param" by (simp add: demo_param_def)
  have b: "block_layers demo_param =
      [MaskedWeight 2 8 2, Tanh, MaskedWeight 8 8 2, Tanh, MaskedWeight 8 2 2]"
    by (simp add: block_layers_def demo_param_def py_range_def)
  from create_model_structure [OF f]
  have len: "length (modules (create_model demo_param)) = 3"
    and i0: "modules (create_model demo_param) ! 0 = BNAF (block_layers demo_param) (residual demo_param)"
    and i1: "modules (create_model demo_param) ! 1 = Permutation (n_dims demo_param) (perm demo_param)"
    and i2: "modules (create_model demo_param) ! 2 = BNAF (block_layers demo_param) None"
    by (simp_all add: demo_param_def)
  have "modules (create_model demo_param) =
      map ((!) (modules (create_model demo_param))) [0..<3]"
    using len map_nth [of "modules (create_model demo_param)"] by simp
  also have "\<dots> = [modules (create_model demo_param) ! 0, modules (create_model demo_param) ! 1,
       modules (create_model demo_param) ! 2]"
    by (simp add: upt_rec numeral_2_eq_2)
  finally show ?thesis
    using i0 i1 i2 b by (simp add: demo_param_def)
qed

section \<open>Properties of the loss\<close>

lemma fl_mul_commute: "fl_mul a b = fl_mul b a"
  by (cases a; cases b) (simp_all add: mult.commute)

lemma fl_sum_Nil: "fl_sum [] = Fin 0"
  by (simp add: fl_sum_def)

lemma fl_sum_Cons: "fl_sum (v # vs) = fl_add v (fl_sum vs)"
  by (simp add: fl_sum_def)

lemma fl_sum_Fin: "fl_sum (map Fin rs) = Fin (sum_list rs)"
  by (induction rs) (simp_all add: fl_sum_Nil fl_sum_Cons)

lemma finite_list_reals:
  assumes "\<forall>w\<in>set ws. isfinite w"
  shows "\<exists>rs. ws = map Fin rs"
  using assms
proof (induction ws)
  case Nil
  then show ?case by simp
next
  case (Cons w ws)
  then obtain rs where "ws = map Fin rs" by auto
  moreover from Cons.prems obtain r where "w = Fin r" by (cases w) auto
  ultimately have "w # ws = map Fin (r # rs)" by simp
  then show ?case by (rule exI)
qed

lemma sum_list_divide: "sum_list (map (\<lambda>r. r / s) rs) = sum_list rs / (s::real)"
  by (induction rs) (simp_all add: add_divide_distrib)

lemma normalized_sum_one:
  assumes "\<forall>w\<in>set weights. isfinite w" and "fl_sum weights \<noteq> Fin 0"
  shows "fl_sum (map (\<lambda>wi. fl_div wi (fl_sum weights)) weights) = Fin 1"
proof -
  from assms(1) obtain rs where rs: "weights = map Fin rs"
    using finite_list_reals by blast
  with assms(2) have nz: "sum_list rs \<noteq> 0" by (simp add: fl_sum_Fin)
  have "map (\<lambda>wi. fl_div wi (fl_sum weights)) weights = map Fin (map (\<lambda>r. r / sum_list rs) rs)"
    using nz by (simp add: rs fl_sum_Fin)
  then show ?thesis
    using nz by (simp only: fl_sum_Fin sum_list_divide) simp
qed

lemma lossfunc_zip:
  assumes "length weights = length x"
    and "compute_log_p_x model x = Inr log_p"
  shows "lossfunc model x weights =
           Inr (fl_neg (fl_sum (map2 fl_mul log_p
                                  (map (\<lambda>wi. fl_div wi (fl_sum weights)) weights))))"
  using assms compute_log_p_x_Inr [OF assms(2)]
  by (simp add: lossfunc_def torch_mul_def)

lemma lossfunc_raises:
  assumes "compute_log_p_x model x = Inl e"
  shows "lossfunc model x weights = Inl e"
  using assms by (simp add: lossfunc_def)

lemma map2_by_index:
  assumes "length bs = length as"
  shows "map2 f as bs = map (\<lambda>i. f (as ! i) (bs ! i)) [0..<length as]"
  using assms by (intro nth_equalityI) simp_all

text \<open>
  C5. For every training or validation batch (as many weights as rows), the loss is computed
  on the weights divided by their sum: it is the negative of the sum over the batch of
  \<open>w\<^sub>i / (\<Sum>\<^sub>j w\<^sub>j)\<close> times the log-likelihood \<open>compute_log_p_x model x\<close> of sample \<open>i\<close>, and it raises
  what \<open>compute_log_p_x\<close> raises on the batch; the renormalized weights sum to 1 (for finite
  weights whose sum is not 0).
\<close>

theorem lossfunc_normalized_weights:
  assumes "length weights = length x"
  shows "lossfunc model x weights =
           (case compute_log_p_x model x of
              Inl e \<Rightarrow> Inl e
            | Inr log_p \<Rightarrow>
                Inr (fl_neg (fl_sum (map (\<lambda>i. fl_mul (fl_div (weights ! i) (fl_sum weights))
                                                  (log_p ! i))
                                       [0..<length x])))) \<and>
         ((\<forall>w\<in>set weights. isfinite w) \<and> fl_sum weights \<noteq> Fin 0 \<longrightarrow>
            fl_sum (map (\<lambda>wi. fl_div wi (fl_sum weights)) weights) = Fin 1)"
proof -
  let ?w = "map (\<lambda>wi. fl_div wi (fl_sum weights)) weights"
  have loss: "lossfunc model x weights =
           (case compute_log_p_x model x of
              Inl e \<Rightarrow> Inl e
            | Inr log_p \<Rightarrow>
                Inr (fl_neg (fl_sum (map (\<lambda>i. fl_mul (fl_div (weights ! i) (fl_sum weights))
                                                  (log_p ! i))
                                       [0..<length x]))))"
  proof (cases "compute_log_p_x model x")
    case (Inl e)
    then show ?thesis by (simp add: lossfunc_raises)
  next
    case (Inr log_p)
    from compute_log_p_x_Inr [OF Inr] have len: "length log_p = length x" by simp
    have "map2 fl_mul log_p ?w = map (\<lambda>i. fl_mul (log_p ! i) (?w ! i)) [0..<length log_p]"
      by (rule map2_by_index) (simp add: assms len)
    also have "\<dots> = map (\<lambda>i. fl_mul (fl_div (weights ! i) (fl_sum weights)) (log_p ! i)) [0..<length x]"
      using assms by (simp add: len fl_mul_commute)
    finally show ?thesis
      by (simp add: lossfunc_zip [OF assms Inr] Inr)
  qed
  with normalized_sum_one [of weights] show ?thesis by blast
qed

lemma log_p_identity_zero: "compute_log_p_x identity_flow [[Fin 0], [Fin 0]] =
    Inr [Fin (- ln (sqrt (2 * pi))), Fin (- ln (sqrt (2 * pi)))]"
  by (simp add: compute_log_p_x_def log_prob_def identity_flow_def fl_sum_def normal_log_prob_def
      fl_sub_def)

theorem lossfunc_normalized_weights_witness:
  "lossfunc identity_flow [[Fin 0], [Fin 0]] [Fin 1, Fin 3] = Inr (Fin (ln (sqrt (2 * pi)))) \<and>
   fl_sum (map (\<lambda>wi. fl_div wi (fl_sum [Fin 1, Fin 3])) [Fin 1, Fin 3]) = Fin 1"
proof -
  have len: "length [Fin 1, Fin 3] = length [[Fin 0], [Fin 0 :: fl]]" by simp
  have fin: "(\<forall>w\<in>set [Fin 1, Fin 3]. isfinite w) \<and> fl_sum [Fin 1, Fin 3] \<noteq> Fin 0"
    by (simp add: fl_sum_def)
  from lossfunc_normalized_weights [OF len, of identity_flow] fin
  have l: "lossfunc identity_flow [[Fin 0], [Fin 0]] [Fin 1, Fin 3] =
           (case compute_log_p_x identity_flow [[Fin 0], [Fin 0]] of
              Inl e \<Rightarrow> Inl e
            | Inr log_p \<Rightarrow>
                Inr (fl_neg (fl_sum (map (\<lambda>i. fl_mul (fl_div ([Fin 1, Fin 3] ! i) (fl_sum [Fin 1, Fin 3]))
                                                  (log_p ! i))
                                       [0..<length [[Fin 0], [Fin 0 :: fl]]]))))"
    and one: "fl_sum (map (\<lambda>wi. fl_div wi (fl_sum [Fin 1, Fin 3])) [Fin 1, Fin 3]) = Fin 1"
    by blast+
  have "[0..<length [[Fin 0], [Fin 0 :: fl]]] = [0, 1]" by (simp add: upt_rec)
  with l have "lossfunc identity_flow [[Fin 0], [Fin 0]] [Fin 1, Fin 3] = Inr (Fin (ln (sqrt (2 * pi))))"
    by (simp add: log_p_identity_zero fl_sum_def algebra_simps)
  with one show ?thesis by simp
qed

section \<open>Properties of the training loop\<close>

lemma init_state_consistent: "history_consistent (init_state model_p optimizer_p scheduler_p)"
  by (simp add: history_consistent_def init_state_def)

lemma train_batches_frame:
  "train_batches c p ds idxs s acc = Inr (losses, s') \<Longrightarrow>
     view s' = view s \<and> swap_calls s' = swap_calls s \<and> validation_loss s' = validation_loss s \<and>
     saved s' = saved s \<and> trn_losses s' = trn_losses s \<and> val_losses s' = val_losses s \<and>
     scheduler s' = scheduler s \<and> training s' = training s"
proof (induction idxs arbitrary: s acc)
  case Nil
  then show ?case by simp
next
  case (Cons index rest)
  from Cons.prems obtain bx bw loss m opt where
    rec: "train_batches c p ds rest (s\<lparr>params := m, optimizer := opt\<rparr>) (acc @ [loss]) = Inr (losses, s')"
    by (auto split: sum.splits prod.splits)
  from Cons.IH [OF rec] show ?case by simp
qed

lemma swap_fields:
  "view (swap c s) = toggle (view s)" "swap_calls (swap c s) = Suc (swap_calls s)"
  "validation_loss (swap c s) = validation_loss s" "saved (swap c s) = saved s"
  "trn_losses (swap c s) = trn_losses s" "val_losses (swap c s) = val_losses s"
  "scheduler (swap c s) = scheduler s" "training (swap c s) = training s"
  by (simp_all add: swap_def split: prod.splits)

lemma train_phase_frame:
  assumes "train_phase c p ds epoch s = Inr (train_loss, s1)"
  shows "view s1 = toggle (view s) \<and> swap_calls s1 = Suc (swap_calls s) \<and>
         validation_loss s1 = validation_loss s \<and> saved s1 = saved s \<and>
         trn_losses s1 = trn_losses s \<and> val_losses s1 = val_losses s \<and> scheduler s1 = scheduler s"
proof -
  from assms obtain losses s0 where
    b: "train_batches c p ds (sampler c TRAIN epoch (dataset_len ds) (batch_size p))
          (s\<lparr>training := True\<rparr>) [] = Inr (losses, s0)"
    and s1: "s1 = swap c s0"
    by (auto simp: train_phase_def split: sum.splits prod.splits)
  from train_batches_frame [OF b] s1 show ?thesis by (simp add: swap_fields)
qed

lemma validate_phase_skipped:
  assumes "validation_due epoch (evalmode p) = Inr False"
  shows "validate_phase c p ds epoch s = Inr s"
  using assms by (simp add: validate_phase_def)

lemma validate_phase_run:
  assumes "validation_due epoch (evalmode p) = Inr True"
    and "validate_phase c p ds epoch s = Inr s2"
  shows "\<exists>v. validation_loss s2 = Some v \<and> view s2 = toggle (view s) \<and>
           swap_calls s2 = Suc (swap_calls s) \<and> saved s2 = saved s \<and>
           trn_losses s2 = trn_losses s \<and> val_losses s2 = val_losses s \<and> scheduler s2 = scheduler s"
  using assms by (auto simp: validate_phase_def swap_fields split: sum.splits)

lemma validate_phase_frame:
  assumes "validate_phase c p ds epoch s = Inr s2"
  shows "saved s2 = saved s \<and> trn_losses s2 = trn_losses s \<and> val_losses s2 = val_losses s \<and>
         scheduler s2 = scheduler s"
  using assms by (auto simp: validate_phase_def swap_fields split: sum.splits bool.splits)

lemma validation_due_cases:
  "validation_due epoch e = Inl ZeroDivisionError \<or> validation_due epoch e = Inr True \<or>
   validation_due epoch e = Inr False"
  by (simp add: validation_due_def)

lemma finish_epoch_bound:
  assumes "validation_loss s = Some v"
  shows "\<exists>stop s'. finish_epoch c modeldir save_name epoch train_loss s = Inr (stop, s') \<and>
           saved s' = saved s @
             [\<lparr>ck_filename = checkpoint_name modeldir save_name epoch, ck_model = params s',
               ck_optimizer = optimizer s', ck_epoch = epoch, ck_trn_losses = trn_losses s',
               ck_val_losses = val_losses s'\<rparr>] \<and>
           trn_losses s' = trn_losses s @ [train_loss] \<and>
           val_losses s' = val_losses s @ [v] \<and>
           validation_loss s' = Some v \<and> view s' = view s \<and> swap_calls s' = swap_calls s"
  using assms
  by (auto simp: finish_epoch_def Let_def save_torch_model_def split: prod.splits)

lemma finish_epoch_unbound:
  assumes "validation_loss s = None"
  shows "finish_epoch c modeldir save_name epoch train_loss s = Inl UnboundLocalError"
  using assms by (simp add: finish_epoch_def Let_def)

lemma train_epoch_run:
  assumes tp: "train_phase c p training_set epoch s = Inr (train_loss, s1)"
    and vp: "validate_phase c p validation_set epoch s1 = Inr s2"
    and bound: "validation_loss s2 = Some v"
  shows "\<exists>s'.
           train_epoch c p modeldir save_name training_set validation_set epoch s =
             Inr (fst (sched_step c (scheduler s2) v), s') \<and>
           saved s' = saved s @
             [\<lparr>ck_filename = checkpoint_name modeldir save_name epoch, ck_model = params s',
               ck_optimizer = optimizer s', ck_epoch = epoch, ck_trn_losses = trn_losses s',
               ck_val_losses = val_losses s'\<rparr>] \<and>
           trn_losses s' = trn_losses s @ [train_loss] \<and>
           val_losses s' = val_losses s @ [v] \<and>
           validation_loss s' = Some v \<and> view s' = view s2 \<and> swap_calls s' = swap_calls s2"
proof -
  note f1 = train_phase_frame [OF tp]
  note f2 = validate_phase_frame [OF vp]
  have "train_epoch c p modeldir save_name training_set validation_set epoch s =
      finish_epoch c modeldir save_name epoch train_loss s2"
    by (simp add: train_epoch_def tp vp)
  with bound f1 f2 show ?thesis
    by (auto simp: finish_epoch_def Let_def save_torch_model_def split: prod.splits)
qed

lemma train_epoch_skipped_view:
  assumes due: "validation_due epoch (evalmode p) = Inr False"
    and run: "train_epoch c p modeldir save_name training_set validation_set epoch s = Inr (stop, s')"
  shows "view s' = toggle (view s) \<and> swap_calls s' = Suc (swap_calls s)"
proof -
  from run obtain train_loss s1 where
    tp: "train_phase c p training_set epoch s = Inr (train_loss, s1)"
    by (auto simp: train_epoch_def split: sum.splits)
  have vp: "validate_phase c p validation_set epoch s1 = Inr s1"
    using due by (rule validate_phase_skipped)
  from run have fe: "finish_epoch c modeldir save_name epoch train_loss s1 = Inr (stop, s')"
    by (simp add: train_epoch_def tp vp)
  then obtain v where bound: "validation_loss s1 = Some v"
    by (cases "validation_loss s1") (simp_all add: finish_epoch_unbound)
  from finish_epoch_bound [OF bound, of c modeldir save_name epoch train_loss] fe
  have "view s' = view s1 \<and> swap_calls s' = swap_calls s1"
    by auto
  with train_phase_frame [OF tp] show ?thesis by simp
qed

lemma train_epoch_consistent:
  assumes "train_epoch c p modeldir save_name training_set validation_set epoch s = Inr (stop, s')"
  shows "history_consistent s'"
proof -
  from assms obtain train_loss s2 where
    fe: "finish_epoch c modeldir save_name epoch train_loss s2 = Inr (stop, s')"
    by (auto simp: train_epoch_def split: sum.splits)
  then obtain v where bound: "validation_loss s2 = Some v"
    by (cases "validation_loss s2") (simp_all add: finish_epoch_unbound)
  from finish_epoch_bound [OF bound, of c modeldir save_name epoch train_loss] fe
  show ?thesis by (auto simp: history_consistent_def)
qed

lemma train_loop_consistent:
  assumes "history_consistent s"
    and "train_loop c p modeldir save_name training_set validation_set epochs_left s = Inr s'"
  shows "history_consistent s'"
  using assms
proof (induction epochs_left arbitrary: s)
  case Nil
  then show ?case by simp
next
  case (Cons epoch rest)
  from Cons.prems(2) obtain stop s1 where
    e: "train_epoch c p modeldir save_name training_set validation_set epoch s = Inr (stop, s1)"
    and r: "if stop then s' = s1
            else train_loop c p modeldir save_name training_set validation_set rest s1 = Inr s'"
    by (auto split: sum.splits if_splits)
  from train_epoch_consistent [OF e] have c1: "history_consistent s1" .
  show ?case
  proof (cases stop)
    case True
    with r c1 show ?thesis by simp
  next
    case False
    with r have "train_loop c p modeldir save_name training_set validation_set rest s1 = Inr s'"
      by simp
    from Cons.IH [OF c1 this] show ?thesis .
  qed
qed

lemma demo_collab_fields:
  "forward demo_collab mode m = identity_flow"
  "opt_step demo_collab clip m opt bx bw = (Suc m, opt)"
  "opt_swap demo_collab m opt = (opt, m)"
  "sched_step demo_collab sch v = (False, sch)"
  "sampler demo_collab ph epoch n bs = (if n = 0 then [] else [[0..<n]])"
  by (simp_all add: demo_collab_def)

lemma demo_lossfunc:
  "lossfunc identity_flow [[Fin 0], [Fin 0]] [Fin 1, Fin 3] = Inr (Fin (ln (sqrt (2 * pi))))"
  by (simp add: lossfunc_def log_p_identity_zero torch_mul_def fl_sum_def algebra_simps)

lemma demo_lossfunc_unit:
  "lossfunc identity_flow [[Fin 0], [Fin 0]] [Fin 1, Fin 1] = Inr (Fin (ln (sqrt (2 * pi))))"
  by (simp add: lossfunc_def log_p_identity_zero torch_mul_def fl_sum_def algebra_simps)

lemma two_rows_batches:
  "sampler demo_collab ph epoch (dataset_len \<lparr>dataset_X = [r0, r1], dataset_W = w\<rparr>) bs = [[0, Suc 0]]"
  by (simp add: demo_collab_fields dataset_len_def upt_rec)

lemma two_rows_getitem:
  "getitem \<lparr>dataset_X = [r0, r1], dataset_W = [w0, w1]\<rparr> [0, Suc 0] = Inr ([r0, r1], [w0, w1])"
  by (simp add: getitem_def)

lemma two_rows_train_batches:
  assumes "lossfunc identity_flow [r0, r1] [w0, w1] = Inr v"
  shows "train_batches demo_collab p \<lparr>dataset_X = [r0, r1], dataset_W = [w0, w1]\<rparr> [[0, Suc 0]] s [] =
     Inr ([v], s\<lparr>params := Suc (params s), optimizer := optimizer s\<rparr>)"
  using assms by (simp add: two_rows_getitem demo_collab_fields(1,2))

lemma two_rows_train_batches_raises:
  assumes "lossfunc identity_flow [r0, r1] [w0, w1] = Inl e"
  shows "train_batches demo_collab p \<lparr>dataset_X = [r0, r1], dataset_W = [w0, w1]\<rparr> [[0, Suc 0]] s [] =
     Inl e"
  using assms by (simp add: two_rows_getitem demo_collab_fields(1,2))

lemma two_rows_validation_batches:
  assumes "lossfunc identity_flow [r0, r1] [w0, w1] = Inr v"
  shows "validation_batches demo_collab \<lparr>dataset_X = [r0, r1], dataset_W = [w0, w1]\<rparr> [[0, Suc 0]] s [] =
     Inr [v]"
  using assms by (simp add: two_rows_getitem demo_collab_fields(1,2))

lemma stack_mean_single: "stack_mean [v] = Inr (fl_div (fl_add v (Fin 0)) (Fin 1))"
  by (simp add: stack_mean_def fl_sum_def)

lemma two_rows_train_phase:
  assumes "lossfunc identity_flow [r0, r1] [w0, w1] = Inr v"
  shows "train_phase demo_collab p \<lparr>dataset_X = [r0, r1], dataset_W = [w0, w1]\<rparr> epoch s =
     Inr (fl_div (fl_add v (Fin 0)) (Fin 1),
          swap demo_collab (s\<lparr>training := True, params := Suc (params s), optimizer := optimizer s\<rparr>))"
  by (simp add: train_phase_def two_rows_batches two_rows_train_batches [OF assms] stack_mean_single
      del: train_batches.simps)

lemma two_rows_train_phase_raises:
  assumes "lossfunc identity_flow [r0, r1] [w0, w1] = Inl e"
  shows "train_phase demo_collab p \<lparr>dataset_X = [r0, r1], dataset_W = [w0, w1]\<rparr> epoch s = Inl e"
  by (simp add: train_phase_def two_rows_batches two_rows_train_batches_raises [OF assms]
      del: train_batches.simps)

lemma two_rows_validate_phase:
  assumes "validation_due epoch (evalmode p) = Inr True"
    and "lossfunc identity_flow [r0, r1] [w0, w1] = Inr v"
  shows "validate_phase demo_collab p \<lparr>dataset_X = [r0, r1], dataset_W = [w0, w1]\<rparr> epoch s =
     Inr (swap demo_collab
            (s\<lparr>training := False, validation_loss := Some (fl_div (fl_add v (Fin 0)) (Fin 1))\<rparr>))"
  by (simp add: validate_phase_def assms(1) two_rows_batches
      two_rows_validation_batches [OF assms(2)] stack_mean_single del: validation_batches.simps)

lemma demo_train_phase:
  "train_phase demo_collab p demo_set epoch s =
     Inr (Fin (ln (sqrt (2 * pi))),
          swap demo_collab (s\<lparr>training := True, params := Suc (params s), optimizer := optimizer s\<rparr>))"
  using two_rows_train_phase [OF demo_lossfunc, of p epoch s] by (simp add: demo_set_def)

lemma demo_validate_phase_run:
  assumes "validation_due epoch (evalmode p) = Inr True"
  shows "validate_phase demo_collab p demo_set epoch s =
     Inr (swap demo_collab (s\<lparr>training := False, validation_loss := Some (Fin (ln (sqrt (2 * pi))))\<rparr>))"
  using two_rows_validate_phase [OF assms demo_lossfunc, of s] by (simp add: demo_set_def)

lemma str_int_0: "str_int 0 = ''0''"
  by (simp add: str_int_def str_nat.simps digit_char_def)

lemma str_int_1: "str_int 1 = ''1''"
  by (simp add: str_int_def str_nat.simps digit_char_def)

lemma toggle_toggle: "toggle (toggle v) = v"
  by (cases v) simp_all

lemma demo_epoch_range: "epoch_range demo_train_param = [0, 1, 2]"
  by (simp add: epoch_range_def py_range_def demo_train_param_def upt_rec)

lemma demo_due:
  "validation_due 0 (evalmode demo_train_param) = Inr True"
  "validation_due 1 (evalmode demo_train_param) = Inr False"
  "validation_due 2 (evalmode demo_train_param) = Inr True"
  by (simp_all add: validation_due_def demo_train_param_def)

lemma demo_resume_fields:
  "start_epoch demo_resume_param = 1" "epochs demo_resume_param = 1"
  "evalmode demo_resume_param = 2" "batch_size demo_resume_param = 2"
  "eval_batch_size demo_resume_param = 2"
  by (simp_all add: demo_resume_param_def demo_train_param_def)

theorem train_epoch_checkpoint_counterexample:
  "\<not> isl (train_phase demo_collab demo_resume_param demo_set 1 (init_state 0 0 ())) \<and>
   \<not> isl (validate_phase demo_collab demo_resume_param demo_set 1
            (snd (projr (train_phase demo_collab demo_resume_param demo_set 1 (init_state 0 0 ()))))) \<and>
   train_epoch demo_collab demo_resume_param ''models'' ''dbnf'' demo_set demo_set 1
     (init_state 0 0 ()) = Inl UnboundLocalError"
proof -
  let ?s0 = "init_state 0 0 () :: (nat, nat, unit) train_state"
  let ?s1 = "swap demo_collab (?s0\<lparr>training := True, params := Suc (params ?s0),
                                    optimizer := optimizer ?s0\<rparr>)"
  have due: "validation_due 1 (evalmode demo_resume_param) = Inr False"
    by (simp add: validation_due_def demo_resume_fields)
  have tp: "train_phase demo_collab demo_resume_param demo_set 1 ?s0 = Inr (Fin (ln (sqrt (2 * pi))), ?s1)"
    by (rule demo_train_phase)
  have vp: "validate_phase demo_collab demo_resume_param demo_set 1 ?s1 = Inr ?s1"
    using due by (rule validate_phase_skipped)
  have unbound: "validation_loss ?s1 = None"
    by (simp add: swap_fields init_state_def)
  have "train_epoch demo_collab demo_resume_param ''models'' ''dbnf'' demo_set demo_set 1 ?s0 =
      finish_epoch demo_collab ''models'' ''dbnf'' 1 (Fin (ln (sqrt (2 * pi)))) ?s1"
    by (simp only: train_epoch_def tp vp sum.case prod.case)
  also have "\<dots> = Inl UnboundLocalError"
    using unbound by (rule finish_epoch_unbound)
  finally have te: "train_epoch demo_collab demo_resume_param ''models'' ''dbnf'' demo_set demo_set 1
      ?s0 = Inl UnboundLocalError" .
  have "\<not> isl (train_phase demo_collab demo_resume_param demo_set 1 ?s0)"
    by (simp only: tp sum.disc not_False_eq_True)
  moreover have "\<not> isl (validate_phase demo_collab demo_resume_param demo_set 1
            (snd (projr (train_phase demo_collab demo_resume_param demo_set 1 ?s0))))"
    by (simp only: tp vp sum.sel snd_conv sum.disc not_False_eq_True)
  ultimately show ?thesis using te by (intro conjI)
qed

text \<open>
  C6 (amended). In every epoch of \<open>train\<close> in which the validation runs or has run in an
  earlier epoch of the run, so that a validation loss has been computed, and whose training
  phase and (possibly skipped) validation phase complete, exactly one checkpoint is written
  after the validation phase, whether or not the validation ran: its file name is
  \<^verbatim>\<open>{modeldir}/{save_name}_{epoch}.pth\<close> and it holds the model parameters, the optimizer, the epoch
  index and both loss histories, each extended by the entry of this epoch. In an epoch that
  skips the validation the value appended to \<open>val_losses\<close> is the last validation loss
  computed, the one \<open>validation_loss\<close> had before the epoch: the last entry of the history is
  repeated.
\<close>

theorem train_epoch_checkpoint:
  assumes tp: "train_phase c p training_set epoch s = Inr (train_loss, s1)"
    and vp: "validate_phase c p validation_set epoch s1 = Inr s2"
    and computed: "validation_due epoch (evalmode p) = Inr True \<or> validation_loss s \<noteq> None"
  shows "\<exists>stop s' v.
           train_epoch c p modeldir save_name training_set validation_set epoch s = Inr (stop, s') \<and>
           saved s' = saved s @
             [\<lparr>ck_filename = modeldir @ ''/'' @ save_name @ ''_'' @ str_int epoch @ ''.pth'',
               ck_model = params s', ck_optimizer = optimizer s', ck_epoch = epoch,
               ck_trn_losses = trn_losses s', ck_val_losses = val_losses s'\<rparr>] \<and>
           trn_losses s' = trn_losses s @ [train_loss] \<and>
           val_losses s' = val_losses s @ [v] \<and>
           validation_loss s' = Some v \<and>
           history_consistent s' \<and>
           (validation_due epoch (evalmode p) = Inr False \<longrightarrow>
              validation_loss s = Some v \<and>
              (history_consistent s \<longrightarrow> val_losses s' = val_losses s @ [last (val_losses s)]))"
proof -
  note f1 = train_phase_frame [OF tp]
  have "\<exists>v. validation_loss s2 = Some v"
  proof (cases "validation_due epoch (evalmode p) = Inr True")
    case True
    from validate_phase_run [OF True vp] show ?thesis by blast
  next
    case False
    with computed have b: "validation_loss s \<noteq> None" by simp
    from False validation_due_cases [of epoch "evalmode p"] vp
    have "validation_due epoch (evalmode p) = Inr False"
      by (auto simp: validate_phase_def)
    from validate_phase_skipped [OF this, of c validation_set s1] vp have "s2 = s1" by simp
    with f1 b show ?thesis by auto
  qed
  then obtain v where bound: "validation_loss s2 = Some v" ..
  from train_epoch_run [OF tp vp bound, of modeldir save_name]
  obtain s' where
    run: "train_epoch c p modeldir save_name training_set validation_set epoch s =
            Inr (fst (sched_step c (scheduler s2) v), s')"
    and sv: "saved s' = saved s @
             [\<lparr>ck_filename = checkpoint_name modeldir save_name epoch, ck_model = params s',
               ck_optimizer = optimizer s', ck_epoch = epoch, ck_trn_losses = trn_losses s',
               ck_val_losses = val_losses s'\<rparr>]"
    and tl: "trn_losses s' = trn_losses s @ [train_loss]"
    and vl: "val_losses s' = val_losses s @ [v]"
    and vb: "validation_loss s' = Some v"
    by blast
  have skipped: "validation_loss s = Some v" if "validation_due epoch (evalmode p) = Inr False"
  proof -
    from validate_phase_skipped [OF that, of c validation_set s1] vp have "s2 = s1" by simp
    with bound f1 show ?thesis by simp
  qed
  have cons: "history_consistent s'"
    using vb vl by (simp add: history_consistent_def)
  have rep: "val_losses s' = val_losses s @ [last (val_losses s)]"
    if "history_consistent s" "validation_due epoch (evalmode p) = Inr False"
    using that skipped vl by (simp add: history_consistent_def)
  from run sv tl vl vb skipped cons rep show ?thesis
    by (intro exI [of _ "fst (sched_step c (scheduler s2) v)"] exI [of _ s'] exI [of _ v])
       (simp add: checkpoint_name_def)
qed

lemma demo_first_epoch:
  "\<exists>s1. train_epoch demo_collab demo_train_param ''models'' ''dbnf'' demo_set demo_set 0
           (init_state 0 0 ()) = Inr (False, s1) \<and>
        map ck_filename (saved s1) = [''models/dbnf_0.pth''] \<and>
        map ck_epoch (saved s1) = [0] \<and>
        val_losses s1 = [Fin (ln (sqrt (2 * pi)))] \<and>
        validation_loss s1 = Some (Fin (ln (sqrt (2 * pi)))) \<and>
        view s1 = RAW \<and> swap_calls s1 = 2"
proof -
  let ?i = "init_state 0 0 () :: (nat, nat, unit) train_state"
  let ?a = "swap demo_collab
      (?i\<lparr>training := True, params := Suc (params ?i), optimizer := optimizer ?i\<rparr>)"
  let ?v = "Fin (ln (sqrt (2 * pi)))"
  let ?b = "swap demo_collab (?a\<lparr>training := False, validation_loss := Some ?v\<rparr>)"
  have tp: "train_phase demo_collab demo_train_param demo_set 0 ?i = Inr (?v, ?a)"
    by (rule demo_train_phase)
  have vp: "validate_phase demo_collab demo_train_param demo_set 0 ?a = Inr ?b"
    using demo_due(1) by (rule demo_validate_phase_run)
  have bound: "validation_loss ?b = Some ?v"
    by (simp add: swap_fields)
  have v2: "view ?b = RAW" "swap_calls ?b = 2"
    by (simp_all add: swap_fields init_state_def)
  from train_epoch_run [OF tp vp bound, of "''models''" "''dbnf''"] v2 show ?thesis
    by (auto simp: demo_collab_fields init_state_def checkpoint_name_def str_int_0)
qed

theorem train_epoch_checkpoint_witness:
  "\<exists>s1 stop s'.
     train_epoch demo_collab demo_train_param ''models'' ''dbnf'' demo_set demo_set 0
       (init_state 0 0 ()) = Inr (False, s1) \<and>
     train_epoch demo_collab demo_train_param ''models'' ''dbnf'' demo_set demo_set 1 s1
       = Inr (stop, s') \<and>
     map ck_filename (saved s') = [''models/dbnf_0.pth'', ''models/dbnf_1.pth''] \<and>
     map ck_epoch (saved s') = [0, 1] \<and>
     ck_val_losses (last (saved s')) = [Fin (ln (sqrt (2 * pi))), Fin (ln (sqrt (2 * pi)))] \<and>
     val_losses s' = [Fin (ln (sqrt (2 * pi))), Fin (ln (sqrt (2 * pi)))]"
proof -
  let ?v = "Fin (ln (sqrt (2 * pi)))"
  from demo_first_epoch obtain s1 where
    first: "train_epoch demo_collab demo_train_param ''models'' ''dbnf'' demo_set demo_set 0
           (init_state 0 0 ()) = Inr (False, s1) \<and>
        map ck_filename (saved s1) = [''models/dbnf_0.pth''] \<and>
        map ck_epoch (saved s1) = [0] \<and>
        val_losses s1 = [Fin (ln (sqrt (2 * pi)))] \<and>
        validation_loss s1 = Some (Fin (ln (sqrt (2 * pi)))) \<and>
        view s1 = RAW \<and> swap_calls s1 = 2"
    by (rule exE)
  note e0 = first [THEN conjunct1]
    and n0 = first [THEN conjunct2, THEN conjunct1]
    and k0 = first [THEN conjunct2, THEN conjunct2, THEN conjunct1]
    and vl0 = first [THEN conjunct2, THEN conjunct2, THEN conjunct2, THEN conjunct1]
    and b0 = first [THEN conjunct2, THEN conjunct2, THEN conjunct2, THEN conjunct2, THEN conjunct1]
  let ?t = "swap demo_collab
      (s1\<lparr>training := True, params := Suc (params s1), optimizer := optimizer s1\<rparr>)"
  have due: "validation_due 1 (evalmode demo_train_param) = Inr False"
    by (rule demo_due(2))
  have tp: "train_phase demo_collab demo_train_param demo_set 1 s1 = Inr (?v, ?t)"
    by (rule demo_train_phase)
  have vp: "validate_phase demo_collab demo_train_param demo_set 1 ?t = Inr ?t"
    using due by (rule validate_phase_skipped)
  have computed: "validation_due 1 (evalmode demo_train_param) = Inr True \<or> validation_loss s1 \<noteq> None"
    using b0 by simp
  have cons: "history_consistent s1"
    using vl0 b0 by (simp add: history_consistent_def)
  from train_epoch_checkpoint [OF tp vp computed, of "''models''" "''dbnf''"] due cons
  obtain stop s' where
    run: "train_epoch demo_collab demo_train_param ''models'' ''dbnf'' demo_set demo_set 1 s1
       = Inr (stop, s')"
    and sv: "saved s' = saved s1 @
             [\<lparr>ck_filename = ''models'' @ ''/'' @ ''dbnf'' @ ''_'' @ str_int 1 @ ''.pth'',
               ck_model = params s', ck_optimizer = optimizer s', ck_epoch = 1,
               ck_trn_losses = trn_losses s', ck_val_losses = val_losses s'\<rparr>]"
    and vl: "val_losses s' = val_losses s1 @ [last (val_losses s1)]"
    by blast
  from e0 run sv vl n0 k0 vl0 show ?thesis
    by (intro exI [of _ s1] exI [of _ stop] exI [of _ s']) (simp add: str_int_1)
qed

lemma epoch_range_first:
  assumes "0 < epochs p"
  shows "\<exists>rest. epoch_range p = start_epoch p # rest"
proof -
  from assms obtain k where "nat (epochs p) = Suc k"
    by (cases "nat (epochs p)") simp_all
  then show ?thesis
    by (simp add: epoch_range_def py_range_def upt_conv_Cons del: upt_Suc)
qed

lemma train_loaders_built:
  assumes "trn_x \<noteq> []" "val_x \<noteq> []" "0 < batch_size p" "0 < eval_batch_size p"
  shows "train c model_p optimizer_p scheduler_p trn_x val_x trn_weights val_weights p
           modeldir save_name =
         train_loop c p modeldir save_name
           \<lparr>dataset_X = trn_x, dataset_W = weights_or_ones trn_x trn_weights\<rparr>
           \<lparr>dataset_X = val_x, dataset_W = weights_or_ones val_x val_weights\<rparr>
           (epoch_range p) (init_state model_p optimizer_p scheduler_p)"
  using assms by (simp add: train_def batch_sampler_def dataset_len_def)

lemma nan_row_loss:
  "lossfunc identity_flow [[NaN], [Fin 0]] [Fin 1, Fin 1] = Inl ValueError"
  by (simp add: lossfunc_def compute_log_p_x_def log_prob_def identity_flow_def)

theorem train_unbound_validation_loss_counterexample:
  "train demo_collab 0 0 () [[Fin 0], [Fin 0]] [] None None demo_resume_param ''models'' ''dbnf''
     = Inl ValueError \<and>
   train demo_collab 0 0 () [[NaN], [Fin 0]] [[Fin 0], [Fin 0]] None None demo_resume_param
     ''models'' ''dbnf'' = Inl ValueError \<and>
   train demo_collab 0 0 () [[Fin 0], [Fin 0]] [[Fin 0], [Fin 0]] None None
     (demo_resume_param\<lparr>evalmode := 0\<rparr>) ''models'' ''dbnf'' = Inl ZeroDivisionError \<and>
   train demo_collab 0 0 () [[Fin 0], [Fin 0]] [[Fin 0], [Fin 0]] None None
     (demo_resume_param\<lparr>epochs := 0\<rparr>) ''models'' ''dbnf'' = Inr (init_state 0 0 ()) \<and>
   start_epoch demo_resume_param = 1 \<and> evalmode demo_resume_param = 2"
proof -
  let ?s0 = "init_state 0 0 () :: (nat, nat, unit) train_state"
  have a: "train demo_collab 0 0 () [[Fin 0], [Fin 0]] [] None None demo_resume_param
      ''models'' ''dbnf'' = Inl ValueError"
    by (simp add: train_def batch_sampler_def dataset_len_def demo_resume_fields)
  have r: "epoch_range demo_resume_param = [1]"
    by (simp add: epoch_range_def py_range_def demo_resume_fields)
  have "train_phase demo_collab demo_resume_param
      \<lparr>dataset_X = [[NaN], [Fin 0]], dataset_W = [Fin 1, Fin 1]\<rparr> 1 ?s0 = Inl ValueError"
    by (rule two_rows_train_phase_raises) (rule nan_row_loss)
  then have b: "train demo_collab 0 0 () [[NaN], [Fin 0]] [[Fin 0], [Fin 0]] None None
      demo_resume_param ''models'' ''dbnf'' = Inl ValueError"
    by (simp add: train_loaders_built demo_resume_fields r weights_or_ones_def train_epoch_def)
  let ?z = "demo_resume_param\<lparr>evalmode := 0\<rparr>"
  have rz: "epoch_range ?z = [1]"
    by (simp add: epoch_range_def py_range_def demo_resume_fields)
  have tpz: "train_phase demo_collab ?z \<lparr>dataset_X = [[Fin 0], [Fin 0]], dataset_W = [Fin 1, Fin 1]\<rparr>
      1 ?s0 = Inr (fl_div (fl_add (Fin (ln (sqrt (2 * pi)))) (Fin 0)) (Fin 1),
          swap demo_collab (?s0\<lparr>training := True, params := Suc (params ?s0), optimizer := optimizer ?s0\<rparr>))"
    by (rule two_rows_train_phase) (rule demo_lossfunc_unit)
  have "train_epoch demo_collab ?z ''models'' ''dbnf''
      \<lparr>dataset_X = [[Fin 0], [Fin 0]], dataset_W = [Fin 1, Fin 1]\<rparr>
      \<lparr>dataset_X = [[Fin 0], [Fin 0]], dataset_W = [Fin 1, Fin 1]\<rparr> 1 ?s0 = Inl ZeroDivisionError"
    by (simp add: train_epoch_def tpz validate_phase_def validation_due_def)
  then have c: "train demo_collab 0 0 () [[Fin 0], [Fin 0]] [[Fin 0], [Fin 0]] None None
     ?z ''models'' ''dbnf'' = Inl ZeroDivisionError"
    by (simp add: train_loaders_built demo_resume_fields rz weights_or_ones_def)
  let ?e = "demo_resume_param\<lparr>epochs := 0\<rparr>"
  have re: "epoch_range ?e = []"
    by (simp add: epoch_range_def py_range_def)
  have d: "train demo_collab 0 0 () [[Fin 0], [Fin 0]] [[Fin 0], [Fin 0]] None None
     ?e ''models'' ''dbnf'' = Inr ?s0"
    by (simp add: train_loaders_built demo_resume_fields re)
  from a b c d show ?thesis by (simp add: demo_resume_fields)
qed

text \<open>
  C9 (amended). For every run of \<open>train\<close> on a training and a validation set that are not
  empty, with positive batch sizes, at least one epoch and an \<open>evalmode\<close> other than 0, whose
  first epoch index \<open>start_epoch\<close> is neither 0 nor divisible by \<open>evalmode\<close> and whose first epoch
  completes its training batches: the first epoch skips the validation, the append to
  \<open>val_losses\<close> then reads \<open>validation_loss\<close>, which was never bound, and \<open>train\<close> fails with
  \<^verbatim>\<open>UnboundLocalError\<close> before it completes its first epoch and before any checkpoint is written.
\<close>

theorem train_unbound_validation_loss:
  assumes ep: "0 < epochs p"
    and nz: "start_epoch p \<noteq> 0"
    and ev: "evalmode p \<noteq> 0"
    and nd: "start_epoch p mod evalmode p \<noteq> 0"
    and ne: "trn_x \<noteq> []" "val_x \<noteq> []"
    and bs: "0 < batch_size p" "0 < eval_batch_size p"
    and tp: "train_phase c p \<lparr>dataset_X = trn_x, dataset_W = weights_or_ones trn_x trn_weights\<rparr>
               (start_epoch p) (init_state model_p optimizer_p scheduler_p) = Inr (train_loss, s1)"
  shows "train c model_p optimizer_p scheduler_p trn_x val_x trn_weights val_weights p
           modeldir save_name = Inl UnboundLocalError"
proof -
  let ?trs = "\<lparr>dataset_X = trn_x, dataset_W = weights_or_ones trn_x trn_weights\<rparr>"
  let ?vs = "\<lparr>dataset_X = val_x, dataset_W = weights_or_ones val_x val_weights\<rparr>"
  from epoch_range_first [OF ep] obtain rest where r: "epoch_range p = start_epoch p # rest" ..
  have due: "validation_due (start_epoch p) (evalmode p) = Inr False"
    using nz ev nd by (simp add: validation_due_def)
  have vp: "validate_phase c p ?vs (start_epoch p) s1 = Inr s1"
    using due by (rule validate_phase_skipped)
  from train_phase_frame [OF tp] have "validation_loss s1 = None"
    by (simp add: init_state_def)
  then have "finish_epoch c modeldir save_name (start_epoch p) train_loss s1 = Inl UnboundLocalError"
    by (rule finish_epoch_unbound)
  then have "train_epoch c p modeldir save_name ?trs ?vs (start_epoch p)
      (init_state model_p optimizer_p scheduler_p) = Inl UnboundLocalError"
    by (simp add: train_epoch_def tp vp)
  then show ?thesis
    by (simp add: train_loaders_built [OF ne bs] r)
qed

theorem train_unbound_validation_loss_witness:
  "train demo_collab 0 0 () [[Fin 0], [Fin 0]] [[Fin 0], [Fin 0]] (Some [Fin 1, Fin 3]) None
     demo_resume_param ''models'' ''dbnf'' = Inl UnboundLocalError"
proof -
  let ?s0 = "init_state 0 0 () :: (nat, nat, unit) train_state"
  have ds: "\<lparr>dataset_X = [[Fin 0], [Fin 0]],
             dataset_W = weights_or_ones [[Fin 0], [Fin 0]] (Some [Fin 1, Fin 3])\<rparr> = demo_set"
    by (simp add: demo_set_def weights_or_ones_def)
  have "train_phase demo_collab demo_resume_param demo_set (start_epoch demo_resume_param) ?s0 =
      Inr (Fin (ln (sqrt (2 * pi))),
           swap demo_collab (?s0\<lparr>training := True, params := Suc (params ?s0),
             optimizer := optimizer ?s0\<rparr>))"
    by (rule demo_train_phase)
  then have tp: "train_phase demo_collab demo_resume_param
      \<lparr>dataset_X = [[Fin 0], [Fin 0]],
        dataset_W = weights_or_ones [[Fin 0], [Fin 0]] (Some [Fin 1, Fin 3])\<rparr>
      (start_epoch demo_resume_param) ?s0 =
      Inr (Fin (ln (sqrt (2 * pi))),
           swap demo_collab (?s0\<lparr>training := True, params := Suc (params ?s0),
             optimizer := optimizer ?s0\<rparr>))"
    by (simp only: ds)
  have h: "0 < epochs demo_resume_param" "start_epoch demo_resume_param \<noteq> 0"
    "evalmode demo_resume_param \<noteq> 0"
    "start_epoch demo_resume_param mod evalmode demo_resume_param \<noteq> 0"
    by (simp_all add: demo_resume_fields)
  have ne: "[[Fin 0], [Fin (0::real)]] \<noteq> []" by simp
  have bs: "0 < batch_size demo_resume_param" "0 < eval_batch_size demo_resume_param"
    by (simp_all add: demo_resume_fields)
  from train_unbound_validation_loss [OF h ne ne bs tp] show ?thesis .
qed

section \<open>Default weights\<close>

lemma fl_sum_replicate_one: "fl_sum (replicate n (Fin 1)) = Fin (real n)"
proof -
  have "replicate n (Fin 1) = map Fin (replicate n 1)" by simp
  then show ?thesis by (simp only: fl_sum_Fin) (simp add: sum_list_replicate)
qed

lemma unit_weights_normalized:
  assumes "0 < n"
  shows "map (\<lambda>wi. fl_div wi (fl_sum (replicate n (Fin 1)))) (replicate n (Fin 1)) =
         replicate n (Fin (1 / real n))"
proof -
  have d: "fl_div (Fin 1) (Fin (real n)) = Fin (1 / real n)"
    using assms by simp
  show ?thesis
    by (simp only: fl_sum_replicate_one map_replicate d)
qed

lemma lossfunc_unit_weights:
  "lossfunc model bx (replicate (length bx) (Fin 1)) = equal_contribution_loss model bx w"
proof (cases "compute_log_p_x model bx")
  case (Inl e)
  then show ?thesis by (simp add: lossfunc_raises equal_contribution_loss_def)
next
  case (Inr log_p)
  from compute_log_p_x_Inr [OF Inr] have len: "length log_p = length bx" by simp
  let ?n = "length bx"
  have z: "lossfunc model bx (replicate ?n (Fin 1)) =
      Inr (fl_neg (fl_sum (map2 fl_mul log_p
        (map (\<lambda>wi. fl_div wi (fl_sum (replicate ?n (Fin 1)))) (replicate ?n (Fin 1))))))"
    by (rule lossfunc_zip) (simp_all add: Inr)
  show ?thesis
  proof (cases "bx = []")
    case True
    with len z Inr show ?thesis by (simp add: equal_contribution_loss_def)
  next
    case False
    then have pos: "0 < ?n" by simp
    have m: "map2 fl_mul log_p (replicate ?n (Fin (1 / real ?n))) =
        map (\<lambda>lp. fl_mul lp (Fin (1 / real ?n))) log_p"
      by (intro nth_equalityI) (simp_all add: len)
    have "lossfunc model bx (replicate ?n (Fin 1)) =
        Inr (fl_neg (fl_sum (map (\<lambda>lp. fl_mul lp (Fin (1 / real ?n))) log_p)))"
      using z by (simp only: unit_weights_normalized [OF pos] m)
    then show ?thesis by (simp add: equal_contribution_loss_def Inr)
  qed
qed

lemma getitem_unit_weights:
  assumes "getitem \<lparr>dataset_X = x, dataset_W = replicate (length x) (Fin 1)\<rparr> index = Inr (bx, bw)"
  shows "bw = replicate (length bx) (Fin 1)"
proof -
  from assms have ok: "list_all (\<lambda>i. i < length x) index"
    and bx: "bx = map (\<lambda>i. x ! i) index"
    and bw: "bw = map (\<lambda>i. replicate (length x) (Fin 1) ! i) index"
    by (auto simp: getitem_def split: if_splits)
  from ok bw have "bw = map (\<lambda>i. Fin 1) index"
    by (simp add: list_all_iff)
  with bx show ?thesis by (simp add: map_replicate_const)
qed

lemma unit_dataset_loss:
  assumes "getitem \<lparr>dataset_X = x, dataset_W = replicate (length x) (Fin 1)\<rparr> index = Inr (bx, bw)"
  shows "equal_contribution_loss model bx bw = lossfunc model bx bw"
  using getitem_unit_weights [OF assms] lossfunc_unit_weights [of model bx bw] by simp

lemma train_batches_with_eq:
  assumes "\<And>index bx bw model. getitem ds index = Inr (bx, bw) \<Longrightarrow> loss model bx bw = lossfunc model bx bw"
  shows "train_batches_with loss c p ds idxs s acc = train_batches c p ds idxs s acc"
proof (induction idxs arbitrary: s acc)
  case Nil
  show ?case by simp
next
  case (Cons index rest)
  show ?case
  proof (cases "getitem ds index")
    case (Inl e)
    then show ?thesis by simp
  next
    case (Inr b)
    obtain bx bw where b: "b = (bx, bw)" by (cases b)
    with Inr have g: "getitem ds index = Inr (bx, bw)" by simp
    from assms [OF g] Cons.IH show ?thesis
      by (simp add: g split: sum.splits prod.splits)
  qed
qed

lemma validation_batches_with_eq:
  assumes "\<And>index bx bw model. getitem ds index = Inr (bx, bw) \<Longrightarrow> loss model bx bw = lossfunc model bx bw"
  shows "validation_batches_with loss c ds idxs s acc = validation_batches c ds idxs s acc"
proof (induction idxs arbitrary: acc)
  case Nil
  show ?case by simp
next
  case (Cons index rest)
  show ?case
  proof (cases "getitem ds index")
    case (Inl e)
    then show ?thesis by simp
  next
    case (Inr b)
    obtain bx bw where b: "b = (bx, bw)" by (cases b)
    with Inr have g: "getitem ds index = Inr (bx, bw)" by simp
    from assms [OF g] Cons.IH show ?thesis
      by (simp add: g split: sum.splits)
  qed
qed

lemma train_epoch_with_eq:
  assumes trn: "\<And>index bx bw model. getitem training_set index = Inr (bx, bw) \<Longrightarrow>
                  trn_loss model bx bw = lossfunc model bx bw"
    and val: "\<And>index bx bw model. getitem validation_set index = Inr (bx, bw) \<Longrightarrow>
                  val_loss model bx bw = lossfunc model bx bw"
  shows "train_epoch_with trn_loss val_loss c p modeldir save_name training_set validation_set epoch s =
         train_epoch c p modeldir save_name training_set validation_set epoch s"
proof -
  have tp: "train_phase_with trn_loss c p training_set epoch s' = train_phase c p training_set epoch s'"
    for s'
    by (simp add: train_phase_with_def train_phase_def train_batches_with_eq [of training_set, OF trn]
        del: train_batches.simps train_batches_with.simps)
  have vp: "validate_phase_with val_loss c p validation_set epoch s' =
      validate_phase c p validation_set epoch s'" for s'
    by (simp add: validate_phase_with_def validate_phase_def
        validation_batches_with_eq [of validation_set, OF val]
        del: validation_batches.simps validation_batches_with.simps
        split: sum.split bool.split)
  show ?thesis
    by (simp add: train_epoch_with_def train_epoch_def tp vp split: sum.split prod.split)
qed

lemma train_loop_with_eq:
  assumes trn: "\<And>index bx bw model. getitem training_set index = Inr (bx, bw) \<Longrightarrow>
                  trn_loss model bx bw = lossfunc model bx bw"
    and val: "\<And>index bx bw model. getitem validation_set index = Inr (bx, bw) \<Longrightarrow>
                  val_loss model bx bw = lossfunc model bx bw"
  shows "train_loop_with trn_loss val_loss c p modeldir save_name training_set validation_set
           epochs_left s =
         train_loop c p modeldir save_name training_set validation_set epochs_left s"
proof (induction epochs_left arbitrary: s)
  case Nil
  show ?case by simp
next
  case (Cons epoch rest)
  show ?case
    by (simp add: train_epoch_with_eq [of training_set trn_loss validation_set val_loss, OF trn val]
        Cons.IH split: sum.splits)
qed

lemma train_with_eq:
  assumes trn: "\<And>index bx bw model.
                  getitem \<lparr>dataset_X = trn_x, dataset_W = trn_w\<rparr> index = Inr (bx, bw) \<Longrightarrow>
                  trn_loss model bx bw = lossfunc model bx bw"
    and val: "\<And>index bx bw model.
                  getitem \<lparr>dataset_X = val_x, dataset_W = val_w\<rparr> index = Inr (bx, bw) \<Longrightarrow>
                  val_loss model bx bw = lossfunc model bx bw"
  shows "train_with trn_loss val_loss c model_p optimizer_p scheduler_p trn_x val_x trn_w val_w p
           modeldir save_name =
         train c model_p optimizer_p scheduler_p trn_x val_x (Some trn_w) (Some val_w) p
           modeldir save_name"
  by (simp add: train_with_def train_def weights_or_ones_def Let_def
      train_loop_with_eq [of "\<lparr>dataset_X = trn_x, dataset_W = trn_w\<rparr>" trn_loss
        "\<lparr>dataset_X = val_x, dataset_W = val_w\<rparr>" val_loss, OF trn val]
      del: train_loop.simps train_loop_with.simps split: sum.split)

lemma train_with_lossfunc:
  "train_with lossfunc lossfunc c model_p optimizer_p scheduler_p trn_x val_x trn_w val_w p
     modeldir save_name =
   train c model_p optimizer_p scheduler_p trn_x val_x (Some trn_w) (Some val_w) p modeldir save_name"
  by (rule train_with_eq) (rule refl)+

text \<open>
  C10. \<open>train\<close> called with \<open>None\<close> for the training (respectively validation) weights is the
  run called with a vector of ones, one for each training (respectively validation) sample,
  and it is the run in which the loss of every training (respectively validation) batch is
  \<open>equal_contribution_loss\<close>, where each of the \<open>n\<close> samples of the batch contributes its
  log-likelihood with the same factor \<open>1 / n\<close>: dividing \<open>n\<close> unit weights by their sum gives
  \<open>1 / n\<close> each.
\<close>

theorem train_default_unit_weights:
  "train c model_p optimizer_p scheduler_p trn_x val_x None val_weights p modeldir save_name =
     train c model_p optimizer_p scheduler_p trn_x val_x
       (Some (replicate (length trn_x) (Fin 1))) val_weights p modeldir save_name \<and>
   train c model_p optimizer_p scheduler_p trn_x val_x trn_weights None p modeldir save_name =
     train c model_p optimizer_p scheduler_p trn_x val_x
       trn_weights (Some (replicate (length val_x) (Fin 1))) p modeldir save_name \<and>
   train c model_p optimizer_p scheduler_p trn_x val_x None val_weights p modeldir save_name =
     train_with equal_contribution_loss lossfunc c model_p optimizer_p scheduler_p trn_x val_x
       (replicate (length trn_x) (Fin 1)) (weights_or_ones val_x val_weights) p modeldir save_name \<and>
   train c model_p optimizer_p scheduler_p trn_x val_x trn_weights None p modeldir save_name =
     train_with lossfunc equal_contribution_loss c model_p optimizer_p scheduler_p trn_x val_x
       (weights_or_ones trn_x trn_weights) (replicate (length val_x) (Fin 1)) p modeldir save_name \<and>
   (\<forall>n>0. map (\<lambda>wi. fl_div wi (fl_sum (replicate n (Fin 1)))) (replicate n (Fin 1)) =
           replicate n (Fin (1 / real n)))"
proof -
  have a: "train c model_p optimizer_p scheduler_p trn_x val_x None val_weights p modeldir save_name =
     train c model_p optimizer_p scheduler_p trn_x val_x
       (Some (replicate (length trn_x) (Fin 1))) val_weights p modeldir save_name"
    by (simp add: train_def weights_or_ones_def del: train_loop.simps)
  have b: "train c model_p optimizer_p scheduler_p trn_x val_x trn_weights None p modeldir save_name =
     train c model_p optimizer_p scheduler_p trn_x val_x
       trn_weights (Some (replicate (length val_x) (Fin 1))) p modeldir save_name"
    by (simp add: train_def weights_or_ones_def del: train_loop.simps)
  have "train_with equal_contribution_loss lossfunc c model_p optimizer_p scheduler_p trn_x val_x
       (replicate (length trn_x) (Fin 1)) (weights_or_ones val_x val_weights) p modeldir save_name =
     train c model_p optimizer_p scheduler_p trn_x val_x (Some (replicate (length trn_x) (Fin 1)))
       (Some (weights_or_ones val_x val_weights)) p modeldir save_name"
    by (rule train_with_eq) (rule unit_dataset_loss, assumption, rule refl)
  also have "\<dots> = train c model_p optimizer_p scheduler_p trn_x val_x None val_weights p modeldir
      save_name"
    by (simp add: train_def weights_or_ones_def del: train_loop.simps)
  finally have c: "train c model_p optimizer_p scheduler_p trn_x val_x None val_weights p modeldir
      save_name =
     train_with equal_contribution_loss lossfunc c model_p optimizer_p scheduler_p trn_x val_x
       (replicate (length trn_x) (Fin 1)) (weights_or_ones val_x val_weights) p modeldir save_name"
    by (rule sym)
  have "train_with lossfunc equal_contribution_loss c model_p optimizer_p scheduler_p trn_x val_x
       (weights_or_ones trn_x trn_weights) (replicate (length val_x) (Fin 1)) p modeldir save_name =
     train c model_p optimizer_p scheduler_p trn_x val_x (Some (weights_or_ones trn_x trn_weights))
       (Some (replicate (length val_x) (Fin 1))) p modeldir save_name"
    by (rule train_with_eq) (rule refl, rule unit_dataset_loss, assumption)
  also have "\<dots> = train c model_p optimizer_p scheduler_p trn_x val_x trn_weights None p modeldir
      save_name"
    by (simp add: train_def weights_or_ones_def del: train_loop.simps)
  finally have d: "train c model_p optimizer_p scheduler_p trn_x val_x trn_weights None p modeldir
      save_name =
     train_with lossfunc equal_contribution_loss c model_p optimizer_p scheduler_p trn_x val_x
       (weights_or_ones trn_x trn_weights) (replicate (length val_x) (Fin 1)) p modeldir save_name"
    by (rule sym)
  from a b c d unit_weights_normalized show ?thesis
    by (intro conjI allI impI)
qed

lemma two_rows_epoch_validated:
  assumes due: "validation_due epoch (evalmode p) = Inr True"
    and lt: "lossfunc identity_flow [r0, r1] [w0, w1] = Inr (Fin a)"
    and lv: "lossfunc identity_flow [q0, q1] [u0, u1] = Inr (Fin b)"
  shows "\<exists>s'. train_epoch demo_collab p modeldir save_name
                 \<lparr>dataset_X = [r0, r1], dataset_W = [w0, w1]\<rparr>
                 \<lparr>dataset_X = [q0, q1], dataset_W = [u0, u1]\<rparr> epoch s = Inr (False, s') \<and>
               view s' = view s \<and> swap_calls s' = swap_calls s + 2 \<and>
               trn_losses s' = trn_losses s @ [Fin a] \<and>
               val_losses s' = val_losses s @ [Fin b] \<and>
               validation_loss s' = Some (Fin b) \<and> length (saved s') = Suc (length (saved s))"
proof -
  let ?t = "swap demo_collab
      (s\<lparr>training := True, params := Suc (params s), optimizer := optimizer s\<rparr>)"
  let ?u = "swap demo_collab (?t\<lparr>training := False, validation_loss := Some (Fin b)\<rparr>)"
  have tp: "train_phase demo_collab p \<lparr>dataset_X = [r0, r1], dataset_W = [w0, w1]\<rparr> epoch s =
      Inr (Fin a, ?t)"
    using two_rows_train_phase [OF lt, of p epoch s] by simp
  have vp: "validate_phase demo_collab p \<lparr>dataset_X = [q0, q1], dataset_W = [u0, u1]\<rparr> epoch ?t =
      Inr ?u"
    using two_rows_validate_phase [OF due lv, of ?t] by simp
  have bound: "validation_loss ?u = Some (Fin b)"
    by (simp add: swap_fields)
  have v2: "view ?u = view s" "swap_calls ?u = swap_calls s + 2"
    by (simp_all add: swap_fields toggle_toggle)
  from train_epoch_run [OF tp vp bound, of modeldir save_name] v2 show ?thesis
    by (auto simp: demo_collab_fields)
qed

lemma two_rows_epoch_skipped:
  assumes due: "validation_due epoch (evalmode p) = Inr False"
    and bound: "validation_loss s = Some v"
    and lt: "lossfunc identity_flow [r0, r1] [w0, w1] = Inr (Fin a)"
  shows "\<exists>s'. train_epoch demo_collab p modeldir save_name
                 \<lparr>dataset_X = [r0, r1], dataset_W = [w0, w1]\<rparr> validation_set epoch s =
                 Inr (False, s') \<and>
               view s' = toggle (view s) \<and> swap_calls s' = Suc (swap_calls s) \<and>
               validation_loss s' \<noteq> None \<and> length (saved s') = Suc (length (saved s))"
proof -
  let ?t = "swap demo_collab
      (s\<lparr>training := True, params := Suc (params s), optimizer := optimizer s\<rparr>)"
  have tp: "train_phase demo_collab p \<lparr>dataset_X = [r0, r1], dataset_W = [w0, w1]\<rparr> epoch s =
      Inr (Fin a, ?t)"
    using two_rows_train_phase [OF lt, of p epoch s] by simp
  have vp: "validate_phase demo_collab p validation_set epoch ?t = Inr ?t"
    using due by (rule validate_phase_skipped)
  have b1: "validation_loss ?t = Some v"
    using bound by (simp add: swap_fields)
  have v1: "view ?t = toggle (view s)" "swap_calls ?t = Suc (swap_calls s)"
    by (simp_all add: swap_fields)
  from train_epoch_run [OF tp vp b1, of modeldir save_name] v1 show ?thesis
    by (auto simp: demo_collab_fields)
qed

theorem train_default_unit_weights_witness:
  "(\<exists>s. train demo_collab 0 0 () [[Fin 0], [Fin 0]] [[Fin 0], [Fin 0]] None None
          (demo_train_param\<lparr>epochs := 1\<rparr>) ''models'' ''dbnf'' = Inr s \<and>
        trn_losses s = [Fin (ln (sqrt (2 * pi)))] \<and> val_losses s = [Fin (ln (sqrt (2 * pi)))]) \<and>
   map (\<lambda>wi. fl_div wi (fl_sum (replicate 2 (Fin 1)))) (replicate 2 (Fin 1)) =
     [Fin (1 / 2), Fin (1 / 2)]"
proof -
  let ?p = "demo_train_param\<lparr>epochs := 1\<rparr>"
  let ?i = "init_state 0 0 () :: (nat, nat, unit) train_state"
  let ?ds = "\<lparr>dataset_X = [[Fin 0], [Fin 0]], dataset_W = [Fin 1, Fin 1]\<rparr>"
  have "train demo_collab 0 0 () [[Fin 0], [Fin 0]] [[Fin 0], [Fin 0]] None None ?p ''models'' ''dbnf'' =
      train demo_collab 0 0 () [[Fin 0], [Fin 0]] [[Fin 0], [Fin 0]]
        (Some (replicate (length [[Fin 0], [Fin (0::real)]]) (Fin 1))) None ?p ''models'' ''dbnf''"
    by (rule train_default_unit_weights [THEN conjunct1])
  also have "\<dots> =
      train demo_collab 0 0 () [[Fin 0], [Fin 0]] [[Fin 0], [Fin 0]]
        (Some (replicate (length [[Fin 0], [Fin (0::real)]]) (Fin 1)))
        (Some (replicate (length [[Fin 0], [Fin (0::real)]]) (Fin 1))) ?p ''models'' ''dbnf''"
    by (rule train_default_unit_weights [THEN conjunct2, THEN conjunct1])
  also have "\<dots> = train_loop demo_collab ?p ''models'' ''dbnf'' ?ds ?ds (epoch_range ?p) ?i"
  proof -
    have bs: "0 < batch_size ?p" "0 < eval_batch_size ?p"
      by (simp_all add: demo_train_param_def)
    have ne: "[[Fin 0], [Fin (0::real)]] \<noteq> []" by simp
    have ones: "replicate (length [[Fin 0], [Fin (0::real)]]) (Fin 1) = [Fin 1, Fin 1]"
      by (simp add: numeral_2_eq_2)
    show ?thesis
      unfolding train_loaders_built [OF ne ne bs] by (simp only: weights_or_ones_def ones option.case)
  qed
  also have "epoch_range ?p = [0]"
    by (simp add: epoch_range_def py_range_def demo_train_param_def)
  finally have run: "train demo_collab 0 0 () [[Fin 0], [Fin 0]] [[Fin 0], [Fin 0]] None None ?p
      ''models'' ''dbnf'' = train_loop demo_collab ?p ''models'' ''dbnf'' ?ds ?ds [0] ?i" .
  have due: "validation_due 0 (evalmode ?p) = Inr True"
    by (simp add: validation_due_def)
  from two_rows_epoch_validated [OF due demo_lossfunc_unit demo_lossfunc_unit,
      of "''models''" "''dbnf''" ?i]
  obtain s where
    e: "train_epoch demo_collab ?p ''models'' ''dbnf'' ?ds ?ds 0 ?i = Inr (False, s)"
    and tl: "trn_losses s = [Fin (ln (sqrt (2 * pi)))]"
    and vl: "val_losses s = [Fin (ln (sqrt (2 * pi)))]"
    by (auto simp: init_state_def)
  from run e have "train demo_collab 0 0 () [[Fin 0], [Fin 0]] [[Fin 0], [Fin 0]] None None ?p
      ''models'' ''dbnf'' = Inr s"
    by simp
  moreover from train_default_unit_weights [THEN conjunct2, THEN conjunct2, THEN conjunct2,
      THEN conjunct2, rule_format, of 2]
  have "map (\<lambda>wi. fl_div wi (fl_sum (replicate 2 (Fin 1)))) (replicate 2 (Fin 1)) =
     replicate 2 (Fin (1 / real 2))"
    by simp
  then have "map (\<lambda>wi. fl_div wi (fl_sum (replicate 2 (Fin 1)))) (replicate 2 (Fin 1)) =
     [Fin (1 / 2), Fin (1 / 2)]"
    by (simp add: numeral_2_eq_2)
  ultimately show ?thesis using tl vl by blast
qed

section \<open>The swap calls of a run\<close>

lemma demo_train_fields:
  "batch_size demo_train_param = 2" "eval_batch_size demo_train_param = 2"
  by (simp_all add: demo_train_param_def)

lemma demo_train_epoch_validated:
  assumes due: "validation_due epoch (evalmode p) = Inr True"
  shows "\<exists>s'. train_epoch demo_collab p modeldir save_name demo_set demo_set epoch s =
                 Inr (False, s') \<and>
               view s' = view s \<and> swap_calls s' = swap_calls s + 2 \<and>
               validation_loss s' \<noteq> None \<and> length (saved s') = Suc (length (saved s))"
  using two_rows_epoch_validated [OF due demo_lossfunc demo_lossfunc, of modeldir save_name s]
  by (auto simp: demo_set_def)

lemma demo_train_epoch_skipped:
  assumes due: "validation_due epoch (evalmode p) = Inr False"
    and bound: "validation_loss s = Some v"
  shows "\<exists>s'. train_epoch demo_collab p modeldir save_name demo_set demo_set epoch s =
                 Inr (False, s') \<and>
               view s' = toggle (view s) \<and> swap_calls s' = Suc (swap_calls s) \<and>
               validation_loss s' \<noteq> None \<and> length (saved s') = Suc (length (saved s))"
  using two_rows_epoch_skipped [OF due bound demo_lossfunc, of modeldir save_name demo_set]
  by (auto simp: demo_set_def)

text \<open>
  C2. The run of three epochs from epoch 0 with a validation every second epoch. Epoch 0
  validates and calls \<open>swap\<close> twice, so the raw view is live after it. Epoch 1 skips the
  validation and calls \<open>swap\<close> once only: the averaged view is live when the training batches
  of epoch 2 start, and the run ends after 5 calls with the averaged view live.
\<close>

theorem train_unmatched_swap:
  "\<exists>s1 s2 s3.
     train_epoch demo_collab demo_train_param ''models'' ''dbnf'' demo_set demo_set 0
       (init_state 0 0 ()) = Inr (False, s1) \<and>
     train_epoch demo_collab demo_train_param ''models'' ''dbnf'' demo_set demo_set 1 s1 =
       Inr (False, s2) \<and>
     train_epoch demo_collab demo_train_param ''models'' ''dbnf'' demo_set demo_set 2 s2 =
       Inr (False, s3) \<and>
     train demo_collab 0 0 () [[Fin 0], [Fin 0]] [[Fin 0], [Fin 0]]
       (Some [Fin 1, Fin 3]) (Some [Fin 1, Fin 3]) demo_train_param ''models'' ''dbnf'' = Inr s3 \<and>
     map view [s1, s2, s3] = [RAW, AVERAGED, AVERAGED] \<and>
     map swap_calls [s1, s2, s3] = [2, 3, 5]"
proof -
  let ?i = "init_state 0 0 () :: (nat, nat, unit) train_state"
  from demo_train_epoch_validated [OF demo_due(1), of "''models''" "''dbnf''" ?i]
  obtain s1 where
    e0: "train_epoch demo_collab demo_train_param ''models'' ''dbnf'' demo_set demo_set 0 ?i =
           Inr (False, s1)"
    and v1: "view s1 = RAW" "swap_calls s1 = 2"
    and b1: "validation_loss s1 \<noteq> None"
    by (auto simp: init_state_def)
  from b1 obtain v where b1': "validation_loss s1 = Some v" by auto
  from demo_train_epoch_skipped [OF demo_due(2) b1', of "''models''" "''dbnf''"] v1
  obtain s2 where
    e1: "train_epoch demo_collab demo_train_param ''models'' ''dbnf'' demo_set demo_set 1 s1 =
           Inr (False, s2)"
    and v2: "view s2 = AVERAGED" "swap_calls s2 = 3"
    by auto
  from demo_train_epoch_validated [OF demo_due(3), of "''models''" "''dbnf''" s2] v2
  obtain s3 where
    e2: "train_epoch demo_collab demo_train_param ''models'' ''dbnf'' demo_set demo_set 2 s2 =
           Inr (False, s3)"
    and v3: "view s3 = AVERAGED" "swap_calls s3 = 5"
    by auto
  have "train demo_collab 0 0 () [[Fin 0], [Fin 0]] [[Fin 0], [Fin 0]]
       (Some [Fin 1, Fin 3]) (Some [Fin 1, Fin 3]) demo_train_param ''models'' ''dbnf'' =
      train_loop demo_collab demo_train_param ''models'' ''dbnf'' demo_set demo_set [0, 1, 2] ?i"
    by (simp add: train_loaders_built demo_train_fields weights_or_ones_def demo_epoch_range
        demo_set_def del: train_loop.simps)
  also have "\<dots> = Inr s3"
    by (simp add: e0 e1 e2)
  finally have t: "train demo_collab 0 0 () [[Fin 0], [Fin 0]] [[Fin 0], [Fin 0]]
       (Some [Fin 1, Fin 3]) (Some [Fin 1, Fin 3]) demo_train_param ''models'' ''dbnf'' = Inr s3" .
  from e0 e1 e2 t v1 v2 v3 show ?thesis
    by (intro exI [of _ s1] exI [of _ s2] exI [of _ s3]) simp
qed

end
